theory Spec2Isabelle
  imports Main "HOL-Library.Sublist"
begin

section \<open>Strings\<close>

text \<open>
  JavaScript strings are modelled as \<open>string\<close>, one \<open>char\<close> per code unit; code units
  above \<open>0xFF\<close> are not representable. \<open>String.prototype.trim\<close> removes the white space
  and line terminator code units at both ends; below \<open>0x100\<close> these are TAB, LF, VT, FF,
  CR, SPACE and NBSP.
\<close>

definition is_js_space :: "char \<Rightarrow> bool" where
  "is_js_space c =
     (c \<in> set [CHR 0x09, CHR 0x0A, CHR 0x0B, CHR 0x0C, CHR 0x0D, CHR 0x20, CHR 0xA0])"

definition trim :: "string \<Rightarrow> string" where
  "trim s = rev (dropWhile is_js_space (rev (dropWhile is_js_space s)))"

section \<open>The Electron main process (src/unnamed/part_004)\<close>

subsection \<open>Environment and data\<close>

text \<open>
  \<open>process.platform\<close>. The code only compares it with \<^verbatim>\<open>"win32"\<close> and \<^verbatim>\<open>"darwin"\<close>;
  \<open>Linux\<close> stands for every other value.
\<close>

datatype platform = Win32 | Darwin | Linux

text \<open>\<^verbatim>\<open>type BackendCommand = { command; args; cwd; description }\<close>\<close>

record BackendCommand =
  command :: string
  args :: "string list"
  cwd :: string
  description :: string

text \<open>
  What the main process reads from its host and never changes:
  \<^verbatim>\<open>process.env["VITE_DEV_SERVER_URL"]\<close>, \<^verbatim>\<open>process.platform\<close>,
  \<^verbatim>\<open>path.join(__dirname, "../../backend")\<close>,
  \<^verbatim>\<open>path.join(app.getPath("userData"), BACKEND_RUNTIME_DIR)\<close>,
  \<^verbatim>\<open>fs.existsSync(archivePath)\<close>, \<^verbatim>\<open>app.getVersion()\<close>, whether the development
  interpreter exists on disk, and whether the archive's \<open>venv\<close> holds the interpreter at
  the path this platform looks for. The archive is the one the packaging script builds
  from the entries \<open>app\<close>, \<open>venv\<close>, \<open>requirements.txt\<close>, \<open>settings.py\<close> and
  \<open>settings.json\<close>: it always holds \<open>venv\<close> and never a \<open>.version\<close> entry.
\<close>

record host_env =
  VITE_DEV_SERVER_URL :: "string option"
  process_platform :: platform
  dev_backend_dir :: string
  runtime_dir :: string
  archive_exists :: bool
  app_version :: string
  dev_python_exists :: bool
  archive_python :: bool

text \<open>
  The version file \<open>runtimeDir/.version\<close>: absent, present but not readable (so that
  \<open>fs.readFileSync\<close> throws), or present with its content.
\<close>

datatype marker = NoMarker | Unreadable | Marker string

text \<open>The part of the file system under \<open>runtimeDir\<close> that the code observes.\<close>

record runtime_fs =
  dir_exists :: bool
  venv_exists :: bool
  python_exists :: bool
  version_file :: marker

datatype error =
    ArchiveMissing
  | ReadError
  | RmError
  | MkdirError
  | TarError
  | WriteError
  | PythonNotFound
  | SpawnThrew
  | SpawnFailed
  | ExitedWithCode int
  | KillThrew

text \<open>
  The observable actions of the main process, in the order they are issued: the four file
  system operations of a re-extraction, \<open>spawn\<close> returning a child handle, \<open>kill("SIGINT")\<close>
  called on a child handle, \<open>console.error\<close>, \<open>app.quit()\<close>, the host process ending, and
  \<open>createWindow()\<close>.
\<close>

datatype event =
    FsRm
  | FsMkdir
  | FsUntar
  | FsWriteFile string
  | Spawn nat BackendCommand
  | Kill nat
  | ConsoleError error
  | AppQuit
  | ProcessExit
  | CreateWindow

text \<open>
  The promise built by the async arrow function of \<open>ensureProductionBackend\<close> is pending
  at one of its four \<open>await\<close>s, fulfilled with \<open>runtimeDir\<close>, or rejected.
\<close>

datatype extract_pc = AwaitRm | AwaitMkdir | AwaitTar | AwaitWrite

datatype promise_state = Pending extract_pc | Fulfilled string | Rejected error

text \<open>
  The module's variables \<open>backendProcess\<close>, \<open>backendExtractPromise\<close> and \<open>win\<close>, the
  promises created so far (a promise is named by its index), the runtime directory, and
  the actions issued so far.
\<close>

record main_state =
  backendProcess :: "nat option"
  backendExtractPromise :: "nat option"
  promises :: "promise_state list"
  runtime :: runtime_fs
  trace :: "event list"
  win :: bool

definition init_state :: "runtime_fs \<Rightarrow> main_state" where
  "init_state fs =
     \<lparr>backendProcess = None, backendExtractPromise = None, promises = [],
      runtime = fs, trace = [], win = False\<rparr>"

definition emit :: "event \<Rightarrow> main_state \<Rightarrow> main_state" where
  "emit ev s = s\<lparr>trace := trace s @ [ev]\<rparr>"

definition new_events :: "main_state \<Rightarrow> main_state \<Rightarrow> event list" where
  "new_events s s' = drop (length (trace s)) (trace s')"

definition is_spawn :: "event \<Rightarrow> bool" where
  "is_spawn ev = (case ev of Spawn c b \<Rightarrow> True | _ \<Rightarrow> False)"

definition spawn_count :: "event list \<Rightarrow> nat" where
  "spawn_count tr = length (filter is_spawn tr)"

definition get_promise :: "main_state \<Rightarrow> nat \<Rightarrow> promise_state option" where
  "get_promise s p = (if p < length (promises s) then Some (promises s ! p) else None)"

definition set_promise :: "nat \<Rightarrow> promise_state \<Rightarrow> main_state \<Rightarrow> main_state" where
  "set_promise p st s = s\<lparr>promises := (promises s)[p := st]\<rparr>"

subsection \<open>ensureProductionBackend\<close>

text \<open>
  Lines 55--61: \<open>needsExtract\<close> starts true and is overwritten only when both \<open>venv\<close> and
  the version file exist, with the comparison of the trimmed file content. Reading a
  file that cannot be read throws.
\<close>

definition needsExtract :: "host_env \<Rightarrow> runtime_fs \<Rightarrow> error + bool" where
  "needsExtract e fs =
     (if venv_exists fs then
        (case version_file fs of
           Marker existing \<Rightarrow> Inr (trim existing \<noteq> app_version e)
         | Unreadable \<Rightarrow> Inl ReadError
         | NoMarker \<Rightarrow> Inr True)
      else Inr True)"

text \<open>
  The async arrow function up to its first \<open>await\<close> (lines 42--65): the archive check
  throws, a runtime that needs no extraction returns at once, and otherwise
  \<open>fs.promises.rm\<close> is issued. An exception rejects the function's promise.
\<close>

definition extract_begin :: "host_env \<Rightarrow> main_state \<Rightarrow> promise_state \<times> main_state" where
  "extract_begin e s =
     (if archive_exists e then
        (case needsExtract e (runtime s) of
           Inl err \<Rightarrow> (Rejected err, s)
         | Inr needs \<Rightarrow>
             (if needs then (Pending AwaitRm, emit FsRm s)
              else (Fulfilled (runtime_dir e), s)))
      else (Rejected ArchiveMissing, s))"

text \<open>
  A call of \<open>ensureProductionBackend\<close> (lines 37--83): it returns the promise in
  \<open>backendExtractPromise\<close> when there is one, and otherwise starts the arrow function and
  stores its promise. The function is \<open>async\<close>, so what a caller holds is a promise of
  its own that settles as the returned one does; the model names it by the promise it
  follows.
\<close>

definition ensureProductionBackend :: "host_env \<Rightarrow> main_state \<Rightarrow> nat \<times> main_state" where
  "ensureProductionBackend e s =
     (case backendExtractPromise s of
        Some p \<Rightarrow> (p, s)
      | None \<Rightarrow>
          (case extract_begin e s of
             (st, s1) \<Rightarrow>
               (length (promises s1),
                s1\<lparr>promises := promises s1 @ [st],
                   backendExtractPromise := Some (length (promises s1))\<rparr>)))"

text \<open>
  The reaction registered by \<open>backendExtractPromise.catch\<close> (lines 78--80) on promise
  \<open>p\<close>: it runs once \<open>p\<close> is rejected and clears the variable.
\<close>

definition catch_handler :: "nat \<Rightarrow> main_state \<Rightarrow> main_state" where
  "catch_handler p s =
     (case get_promise s p of
        Some (Rejected err) \<Rightarrow> s\<lparr>backendExtractPromise := None\<rparr>
      | _ \<Rightarrow> s)"

text \<open>
  How each awaited operation ends is the host's choice. A failed recursive removal may
  leave any part of the old tree (the flags say whether \<open>venv\<close>, the interpreter and the
  version file survive); a failed unpack may have written any part of the archive; a
  failed write may leave any content, or none.
\<close>

datatype rm_result = RmDone | RmFails bool bool bool

datatype mkdir_result = MkdirDone | MkdirFails

datatype tar_result = TarDone | TarFails bool bool

datatype write_result = WriteDone | WriteFails marker

record io_oracle =
  rm_result :: rm_result
  mkdir_result :: mkdir_result
  tar_result :: tar_result
  write_result :: write_result

definition removed_fs :: runtime_fs where
  "removed_fs =
     \<lparr>dir_exists = False, venv_exists = False, python_exists = False,
      version_file = NoMarker\<rparr>"

definition after_failed_rm :: "bool \<Rightarrow> bool \<Rightarrow> bool \<Rightarrow> runtime_fs \<Rightarrow> runtime_fs" where
  "after_failed_rm kv kp km fs =
     fs\<lparr>venv_exists := venv_exists fs \<and> kv,
        python_exists := python_exists fs \<and> kv \<and> kp,
        version_file := (if km then version_file fs else NoMarker)\<rparr>"

text \<open>
  One step of the arrow function for promise \<open>p\<close>: the awaited operation ends as the host
  says, and the function runs on to its next \<open>await\<close>, its \<open>return\<close> or its exception
  (lines 65--75).
\<close>

definition extract_step :: "host_env \<Rightarrow> io_oracle \<Rightarrow> nat \<Rightarrow> main_state \<Rightarrow> main_state" where
  "extract_step e io p s =
     (case get_promise s p of
        Some (Pending AwaitRm) \<Rightarrow>
          (case rm_result io of
             RmDone \<Rightarrow>
               set_promise p (Pending AwaitMkdir) (emit FsMkdir (s\<lparr>runtime := removed_fs\<rparr>))
           | RmFails kv kp km \<Rightarrow>
               set_promise p (Rejected RmError)
                 (s\<lparr>runtime := after_failed_rm kv kp km (runtime s)\<rparr>))
      | Some (Pending AwaitMkdir) \<Rightarrow>
          (case mkdir_result io of
             MkdirDone \<Rightarrow>
               set_promise p (Pending AwaitTar)
                 (emit FsUntar (s\<lparr>runtime := (runtime s)\<lparr>dir_exists := True\<rparr>\<rparr>))
           | MkdirFails \<Rightarrow> set_promise p (Rejected MkdirError) s)
      | Some (Pending AwaitTar) \<Rightarrow>
          (case tar_result io of
             TarDone \<Rightarrow>
               set_promise p (Pending AwaitWrite)
                 (emit (FsWriteFile (app_version e))
                    (s\<lparr>runtime := (runtime s)
                         \<lparr>venv_exists := True, python_exists := archive_python e\<rparr>\<rparr>))
           | TarFails v py \<Rightarrow>
               set_promise p (Rejected TarError)
                 (s\<lparr>runtime := (runtime s)
                      \<lparr>venv_exists := v, python_exists := v \<and> py \<and> archive_python e\<rparr>\<rparr>))
      | Some (Pending AwaitWrite) \<Rightarrow>
          (case write_result io of
             WriteDone \<Rightarrow>
               set_promise p (Fulfilled (runtime_dir e))
                 (s\<lparr>runtime := (runtime s)\<lparr>version_file := Marker (app_version e)\<rparr>\<rparr>)
           | WriteFails left \<Rightarrow>
               set_promise p (Rejected WriteError)
                 (s\<lparr>runtime := (runtime s)\<lparr>version_file := left\<rparr>\<rparr>))
      | _ \<Rightarrow> s)"

text \<open>
  The arrow function run until its promise settles (at most four awaits), followed by
  the \<open>catch\<close> reaction.
\<close>

definition extract_run :: "host_env \<Rightarrow> io_oracle \<Rightarrow> nat \<Rightarrow> main_state \<Rightarrow> main_state" where
  "extract_run e io p s =
     catch_handler p
       (extract_step e io p (extract_step e io p (extract_step e io p (extract_step e io p s))))"

text \<open>One call of \<open>ensureProductionBackend\<close>, awaited by its caller.\<close>

definition ensure_awaited :: "host_env \<Rightarrow> io_oracle \<Rightarrow> main_state \<Rightarrow> nat \<times> main_state" where
  "ensure_awaited e io s =
     (case ensureProductionBackend e s of (p, s1) \<Rightarrow> (p, extract_run e io p s1))"

subsection \<open>resolveBackendCommand\<close>

definition isWindows :: "host_env \<Rightarrow> bool" where
  "isWindows e = (process_platform e = Win32)"

text \<open>\<^verbatim>\<open>if (VITE_DEV_SERVER_URL)\<close>: the variable is set and not the empty string.\<close>

definition dev_mode :: "host_env \<Rightarrow> bool" where
  "dev_mode e = (case VITE_DEV_SERVER_URL e of Some u \<Rightarrow> u \<noteq> [] | None \<Rightarrow> False)"

definition path_sep :: "platform \<Rightarrow> string" where
  "path_sep pl = (if pl = Win32 then [CHR 0x5C] else ''/'')"

text \<open>\<open>path.join\<close> on segments that need no normalisation.\<close>

fun path_join :: "platform \<Rightarrow> string list \<Rightarrow> string" where
  "path_join pl [] = ''.''"
| "path_join pl [x] = x"
| "path_join pl (x # y # ys) = x @ path_sep pl @ path_join pl (y # ys)"

definition python_path :: "host_env \<Rightarrow> string \<Rightarrow> string" where
  "python_path e dir =
     (if isWindows e then path_join (process_platform e) [dir, ''venv'', ''Scripts'', ''python.exe'']
      else path_join (process_platform e) [dir, ''venv'', ''bin'', ''python''])"

definition uvicorn_args :: "string list" where
  "uvicorn_args =
     [''-m'', ''uvicorn'', ''app.app:app'', ''--host'', ''127.0.0.1'', ''--port'', ''8000'']"

definition dev_command :: "host_env \<Rightarrow> BackendCommand" where
  "dev_command e =
     \<lparr>command = python_path e (dev_backend_dir e), args = uvicorn_args,
      cwd = dev_backend_dir e, description = ''development venv''\<rparr>"

definition packaged_command :: "host_env \<Rightarrow> string \<Rightarrow> BackendCommand" where
  "packaged_command e dir =
     \<lparr>command = python_path e dir, args = uvicorn_args,
      cwd = dir, description = ''packaged backend runtime''\<rparr>"

text \<open>
  What a suspended \<open>resolveBackendCommand\<close> waits for: nothing more (the development
  profile has no \<open>await\<close> and its result is ready), or the extraction promise.
\<close>

datatype awaited = Ready BackendCommand | OnPromise nat

text \<open>
  \<open>resolveBackendCommand\<close> up to its \<open>await\<close> (lines 85--101). The development profile
  returns its command without looking at the disk.
\<close>

definition resolveBackendCommand_begin :: "host_env \<Rightarrow> main_state \<Rightarrow> awaited \<times> main_state" where
  "resolveBackendCommand_begin e s =
     (if dev_mode e then (Ready (dev_command e), s)
      else (case ensureProductionBackend e s of (p, s1) \<Rightarrow> (OnPromise p, s1)))"

text \<open>
  \<open>resolveBackendCommand\<close> after its \<open>await\<close> (lines 101--115): \<open>None\<close> while the promise
  is pending, the promise's error when it is rejected, and otherwise the check
  \<^verbatim>\<open>fs.existsSync(python)\<close> in the runtime directory.
\<close>

definition resolveBackendCommand_finish ::
    "host_env \<Rightarrow> awaited \<Rightarrow> main_state \<Rightarrow> (error + BackendCommand) option" where
  "resolveBackendCommand_finish e a s =
     (case a of
        Ready c \<Rightarrow> Some (Inr c)
      | OnPromise p \<Rightarrow>
          (case get_promise s p of
             Some (Fulfilled dir) \<Rightarrow>
               (if python_exists (runtime s) then Some (Inr (packaged_command e dir))
                else Some (Inl PythonNotFound))
           | Some (Rejected err) \<Rightarrow> Some (Inl err)
           | _ \<Rightarrow> None))"

subsection \<open>startBackend\<close>

text \<open>
  \<open>startBackend\<close> up to its \<open>await\<close> (lines 119--125): \<open>None\<close> when the guard returns,
  otherwise what the call is suspended on.
\<close>

definition startBackend_begin :: "host_env \<Rightarrow> main_state \<Rightarrow> awaited option \<times> main_state" where
  "startBackend_begin e s =
     (case backendProcess s of
        Some c \<Rightarrow> (None, s)
      | None \<Rightarrow> (case resolveBackendCommand_begin e s of (a, s1) \<Rightarrow> (Some a, s1)))"

text \<open>
  \<open>startBackend\<close> after its \<open>await\<close> (lines 125--150). An exception of
  \<open>resolveBackendCommand\<close> or of \<open>spawn\<close> itself lands in the \<open>catch\<close> block, which logs
  it; otherwise the new child handle is stored in \<open>backendProcess\<close>. The result is
  \<open>None\<close> while the awaited promise is pending.
\<close>

definition startBackend_resume ::
    "host_env \<Rightarrow> bool \<Rightarrow> awaited \<Rightarrow> main_state \<Rightarrow> main_state option" where
  "startBackend_resume e spawn_throws a s =
     (case resolveBackendCommand_finish e a s of
        None \<Rightarrow> None
      | Some (Inl err) \<Rightarrow> Some (emit (ConsoleError err) s)
      | Some (Inr c) \<Rightarrow>
          (if spawn_throws then Some (emit (ConsoleError SpawnThrew) s)
           else Some ((emit (Spawn (spawn_count (trace s)) c) s)
                        \<lparr>backendProcess := Some (spawn_count (trace s))\<rparr>)))"

text \<open>The listeners registered on the child (lines 137--147).\<close>

definition on_child_error :: "main_state \<Rightarrow> main_state" where
  "on_child_error s = (emit (ConsoleError SpawnFailed) s)\<lparr>backendProcess := None\<rparr>"

definition on_child_exit :: "int option \<Rightarrow> main_state \<Rightarrow> main_state" where
  "on_child_exit code s =
     (case code of
        Some c \<Rightarrow>
          (if c \<noteq> 0 then (emit (ConsoleError (ExitedWithCode c)) s)\<lparr>backendProcess := None\<rparr>
           else s\<lparr>backendProcess := None\<rparr>)
      | None \<Rightarrow> s\<lparr>backendProcess := None\<rparr>)"

text \<open>
  One call of \<open>startBackend\<close> awaited by its caller, with nothing else running in
  between: the extraction it waits for is run until its promise settles.
\<close>

definition startBackend_awaited ::
    "host_env \<Rightarrow> io_oracle \<Rightarrow> bool \<Rightarrow> main_state \<Rightarrow> main_state option" where
  "startBackend_awaited e io spawn_throws s =
     (case startBackend_begin e s of
        (None, s1) \<Rightarrow> Some s1
      | (Some (Ready c), s1) \<Rightarrow> startBackend_resume e spawn_throws (Ready c) s1
      | (Some (OnPromise p), s1) \<Rightarrow>
          startBackend_resume e spawn_throws (OnPromise p) (extract_run e io p s1))"

definition createWindow :: "main_state \<Rightarrow> main_state" where
  "createWindow s = (emit CreateWindow s)\<lparr>win := True\<rparr>"

text \<open>The \<open>app.whenReady()\<close> handler (lines 232--237).\<close>

definition whenReady :: "host_env \<Rightarrow> io_oracle \<Rightarrow> bool \<Rightarrow> main_state \<Rightarrow> main_state option" where
  "whenReady e io spawn_throws s =
     (case startBackend_awaited e io spawn_throws s of
        None \<Rightarrow> None
      | Some s1 \<Rightarrow> Some (createWindow s1))"

subsection \<open>Shutdown\<close>

text \<open>
  \<open>cleanup\<close> (lines 190--201). \<open>Kill c\<close> records the call \<open>kill("SIGINT")\<close> on the handle;
  whether the call throws is the host's choice, and the \<open>catch\<close> block logs it.
\<close>

definition cleanup :: "bool \<Rightarrow> main_state \<Rightarrow> main_state" where
  "cleanup kill_throws s =
     (case backendProcess s of
        None \<Rightarrow> s
      | Some c \<Rightarrow>
          (if kill_throws
           then (emit (ConsoleError KillThrew) (emit (Kill c) s))\<lparr>backendProcess := None\<rparr>
           else (emit (Kill c) s)\<lparr>backendProcess := None\<rparr>))"

text \<open>
  The host process ending: the \<open>exit\<close> listener of line 204 runs, then the process is
  gone. \<open>process.exit()\<close> does the same.
\<close>

definition process_exit :: "bool \<Rightarrow> main_state \<Rightarrow> main_state" where
  "process_exit kill_throws s = emit ProcessExit (cleanup kill_throws s)"

definition on_SIGINT :: "bool \<Rightarrow> main_state \<Rightarrow> main_state" where
  "on_SIGINT kill_throws s = process_exit kill_throws (cleanup kill_throws s)"

definition on_SIGTERM :: "bool \<Rightarrow> main_state \<Rightarrow> main_state" where
  "on_SIGTERM kill_throws s = process_exit kill_throws (cleanup kill_throws s)"

definition on_before_quit :: "bool \<Rightarrow> main_state \<Rightarrow> main_state" where
  "on_before_quit kill_throws s = cleanup kill_throws s"

text \<open>A quit of the application: \<open>before-quit\<close> is emitted, then the process ends.\<close>

definition app_quit :: "bool \<Rightarrow> main_state \<Rightarrow> main_state" where
  "app_quit kill_throws s =
     process_exit kill_throws (on_before_quit kill_throws (emit AppQuit s))"

definition on_window_all_closed :: "host_env \<Rightarrow> bool \<Rightarrow> main_state \<Rightarrow> main_state" where
  "on_window_all_closed e kill_throws s =
     (if process_platform e = Darwin then s
      else (app_quit kill_throws (cleanup kill_throws s))\<lparr>win := False\<rparr>)"

text \<open>The ways the host process ends.\<close>

datatype shutdown_path = NormalExit | SigInt | SigTerm | WindowAllClosed | BeforeQuit

definition terminate :: "host_env \<Rightarrow> bool \<Rightarrow> shutdown_path \<Rightarrow> main_state \<Rightarrow> main_state" where
  "terminate e kill_throws t s =
     (case t of
        NormalExit \<Rightarrow> process_exit kill_throws s
      | SigInt \<Rightarrow> on_SIGINT kill_throws s
      | SigTerm \<Rightarrow> on_SIGTERM kill_throws s
      | WindowAllClosed \<Rightarrow> on_window_all_closed e kill_throws s
      | BeforeQuit \<Rightarrow> process_exit kill_throws (on_before_quit kill_throws s))"

subsection \<open>Two overlapping calls of startBackend\<close>

text \<open>
  \<open>startBackend\<close> is called a second time while the first call is suspended at its
  \<open>await\<close>; the awaited extraction (if any) then settles, and the two continuations run
  in the order of the calls.
\<close>

definition resume_call ::
    "host_env \<Rightarrow> bool \<Rightarrow> awaited option \<Rightarrow> main_state \<Rightarrow> main_state option" where
  "resume_call e spawn_throws a s =
     (case a of None \<Rightarrow> Some s | Some x \<Rightarrow> startBackend_resume e spawn_throws x s)"

definition settle_awaited :: "host_env \<Rightarrow> io_oracle \<Rightarrow> awaited option \<Rightarrow> main_state \<Rightarrow> main_state" where
  "settle_awaited e io a s =
     (case a of Some (OnPromise p) \<Rightarrow> extract_run e io p s | _ \<Rightarrow> s)"

definition startBackend_overlapping ::
    "host_env \<Rightarrow> io_oracle \<Rightarrow> bool \<Rightarrow> main_state \<Rightarrow> main_state option" where
  "startBackend_overlapping e io spawn_throws s =
     (case startBackend_begin e s of
        (a1, s1) \<Rightarrow>
          (case startBackend_begin e s1 of
             (a2, s2) \<Rightarrow>
               (case resume_call e spawn_throws a1 (settle_awaited e io a1 s2) of
                  None \<Rightarrow> None
                | Some s3 \<Rightarrow> resume_call e spawn_throws a2 s3)))"

subsection \<open>Auxiliary notions\<close>

text \<open>The stored promise variable names a promise that exists.\<close>

definition promise_ok :: "main_state \<Rightarrow> bool" where
  "promise_ok s =
     (case backendExtractPromise s of None \<Rightarrow> True | Some p \<Rightarrow> p < length (promises s))"

text \<open>How many awaits a promise is away from settling, at most.\<close>

fun rank :: "promise_state \<Rightarrow> nat" where
  "rank (Pending AwaitRm) = 4"
| "rank (Pending AwaitMkdir) = 3"
| "rank (Pending AwaitTar) = 2"
| "rank (Pending AwaitWrite) = 1"
| "rank (Fulfilled d) = 0"
| "rank (Rejected err) = 0"

text \<open>The file system operations among the events.\<close>

fun is_fs_event :: "event \<Rightarrow> bool" where
  "is_fs_event FsRm = True"
| "is_fs_event FsMkdir = True"
| "is_fs_event FsUntar = True"
| "is_fs_event (FsWriteFile v) = True"
| "is_fs_event ev = False"

text \<open>
  From \<open>s\<close> to \<open>s'\<close> only file system operations were issued, and \<open>backendProcess\<close>
  and \<open>win\<close> are unchanged.
\<close>

definition fs_only :: "main_state \<Rightarrow> main_state \<Rightarrow> bool" where
  "fs_only s s' =
     (backendProcess s' = backendProcess s \<and> win s' = win s
      \<and> take (length (trace s)) (trace s') = trace s
      \<and> list_all is_fs_event (new_events s s'))"

subsection \<open>Example hosts\<close>

definition packaged_env :: host_env where
  "packaged_env =
     \<lparr>VITE_DEV_SERVER_URL = None, process_platform = Linux,
      dev_backend_dir = ''/repo/backend'', runtime_dir = ''/userData/backend-runtime'',
      archive_exists = True, app_version = ''1.1.0'',
      dev_python_exists = False, archive_python = True\<rparr>"

definition dev_env :: host_env where
  "dev_env = packaged_env\<lparr>VITE_DEV_SERVER_URL := Some ''http://localhost:5173''\<rparr>"

definition all_ok :: io_oracle where
  "all_ok =
     \<lparr>rm_result = RmDone, mkdir_result = MkdirDone, tar_result = TarDone,
      write_result = WriteDone\<rparr>"

definition installed :: "string \<Rightarrow> runtime_fs" where
  "installed v =
     \<lparr>dir_exists = True, venv_exists = True, python_exists = True,
      version_file = Marker v\<rparr>"

section \<open>The chat page (src/frontend/src/pages/chat/Chat.tsx)\<close>

subsection \<open>State\<close>

datatype role = User | Assistant

record ChatMessage =
  role :: role
  content :: string

record Model =
  model_id :: string
  provider :: "string option"
  downloaded :: "bool option"

text \<open>
  The component's state variables. \<open>messages\<close> is a JavaScript array: a slot may be
  empty. \<open>controllers\<close> holds the \<open>aborted\<close> flag of every \<open>AbortController\<close> created so
  far; \<open>abortController\<close> names one of them by its index.
\<close>

record chat_state =
  models :: "Model list"
  model :: string
  messages :: "ChatMessage option list"
  input :: string
  loading :: bool
  currentReasoning :: string
  chatId :: "nat option"
  assistantReasoning :: "nat \<Rightarrow> string option"
  contentStarted :: bool
  abortController :: "nat option"
  controllers :: "bool list"

text \<open>Reading and writing an array slot: a read out of range is \<open>undefined\<close>, a write
  out of range extends the array with empty slots.\<close>

definition js_get :: "'a option list \<Rightarrow> nat \<Rightarrow> 'a option" where
  "js_get xs i = (if i < length xs then xs ! i else None)"

definition js_set :: "'a option list \<Rightarrow> nat \<Rightarrow> 'a \<Rightarrow> 'a option list" where
  "js_set xs i v =
     (if i < length xs then xs[i := Some v]
      else xs @ replicate (i - length xs) None @ [Some v])"

text \<open>
  What a running call of \<open>send\<close> holds in its closure: \<open>assistantIndex\<close>, its
  \<open>AbortController\<close>, and the values \<open>currentReasoning\<close> and \<open>contentStarted\<close> had in the
  render that created this \<open>send\<close>. They are constants of that render: the state setters
  called later do not change them.
\<close>

record session =
  assistantIndex :: nat
  controller :: nat
  seen_currentReasoning :: string
  seen_contentStarted :: bool

subsection \<open>send\<close>

text \<open>
  \<^verbatim>\<open>selectedModel?.provider === "opensource" && selectedModel?.downloaded === false\<close>
\<close>

definition needs_download :: "chat_state \<Rightarrow> bool" where
  "needs_download s =
     (case find (\<lambda>m. model_id m = model s) (models s) of
        None \<Rightarrow> False
      | Some m \<Rightarrow> provider m = Some ''opensource'' \<and> downloaded m = Some False)"

text \<open>
  \<open>send\<close> up to \<open>await streamChat\<close> (lines 64--83). The two early returns give no
  session and leave the state as it is.
\<close>

definition send_begin :: "chat_state \<Rightarrow> session option \<times> chat_state" where
  "send_begin s =
     (if trim (input s) = [] \<or> model s = [] then (None, s)
      else if needs_download s then (None, s)
      else
        (Some \<lparr>assistantIndex = length (messages s) + 1,
               controller = length (controllers s),
               seen_currentReasoning = currentReasoning s,
               seen_contentStarted = contentStarted s\<rparr>,
         s\<lparr>messages := messages s @
              [Some \<lparr>role = User, content = trim (input s)\<rparr>,
               Some \<lparr>role = Assistant, content = []\<rparr>],
           currentReasoning := [],
           contentStarted := False,
           input := [],
           loading := True,
           controllers := controllers s @ [False],
           abortController := Some (length (controllers s))\<rparr>))"

text \<open>The three handlers passed to \<open>streamChat\<close> (lines 87--103).\<close>

definition onContent :: "session \<Rightarrow> string \<Rightarrow> chat_state \<Rightarrow> chat_state" where
  "onContent ses chunk s =
     (s\<lparr>contentStarted := (if seen_contentStarted ses then contentStarted s else True)\<rparr>)
      \<lparr>messages :=
         js_set (messages s) (assistantIndex ses)
           \<lparr>role = Assistant,
            content =
              (case js_get (messages s) (assistantIndex ses) of
                 None \<Rightarrow> []
               | Some existing \<Rightarrow> content existing) @ chunk\<rparr>\<rparr>"

definition onReasoning :: "string \<Rightarrow> chat_state \<Rightarrow> chat_state" where
  "onReasoning chunk s = s\<lparr>currentReasoning := currentReasoning s @ chunk\<rparr>"

definition onMeta :: "nat \<Rightarrow> chat_state \<Rightarrow> chat_state" where
  "onMeta i s = s\<lparr>chatId := Some i\<rparr>"

datatype handler_call = OnContent string | OnReasoning string | OnMeta nat

definition handle :: "session \<Rightarrow> chat_state \<Rightarrow> handler_call \<Rightarrow> chat_state" where
  "handle ses s c =
     (case c of
        OnContent chunk \<Rightarrow> onContent ses chunk s
      | OnReasoning chunk \<Rightarrow> onReasoning chunk s
      | OnMeta i \<Rightarrow> onMeta i s)"

text \<open>
  The \<open>finally\<close> block (lines 112--119). Its test and the text it attaches are the
  \<open>currentReasoning\<close> of the closure.
\<close>

definition send_finally :: "session \<Rightarrow> chat_state \<Rightarrow> chat_state" where
  "send_finally ses s =
     (if seen_currentReasoning ses = [] then s\<lparr>loading := False, abortController := None\<rparr>
      else s\<lparr>loading := False, abortController := None,
             assistantReasoning :=
               (assistantReasoning s)(assistantIndex ses \<mapsto> seen_currentReasoning ses),
             currentReasoning := []\<rparr>)"

text \<open>
  A whole call of \<open>send\<close>, given the handler calls \<open>streamChat\<close> makes before it returns
  or throws: either way the \<open>finally\<close> block runs next.
\<close>

definition send :: "handler_call list \<Rightarrow> chat_state \<Rightarrow> chat_state" where
  "send calls s =
     (case send_begin s of
        (None, s1) \<Rightarrow> s1
      | (Some ses, s1) \<Rightarrow> send_finally ses (foldl (handle ses) s1 calls))"

text \<open>The text of the content calls, in order.\<close>

fun content_chunks :: "handler_call list \<Rightarrow> string list" where
  "content_chunks [] = []"
| "content_chunks (OnContent chunk # cs) = chunk # content_chunks cs"
| "content_chunks (c # cs) = content_chunks cs"

fun reasoning_chunks :: "handler_call list \<Rightarrow> string list" where
  "reasoning_chunks [] = []"
| "reasoning_chunks (OnReasoning chunk # cs) = chunk # reasoning_chunks cs"
| "reasoning_chunks (c # cs) = reasoning_chunks cs"

subsection \<open>stopStreaming\<close>

text \<open>Lines 122--128: \<^verbatim>\<open>if (abortController && loading)\<close>.\<close>

definition stopStreaming :: "chat_state \<Rightarrow> chat_state" where
  "stopStreaming s =
     (case abortController s of
        None \<Rightarrow> s
      | Some c \<Rightarrow>
          (if loading s then s\<lparr>controllers := (controllers s)[c := True], loading := False\<rparr>
           else s))"

subsection \<open>The stream\<close>

datatype wire_event =
    ContentDelta string
  | ReasoningDelta string
  | MetaEvent nat
  | UnknownEvent string
  | TerminalEvent bool

text \<open>
  Modelled from the spec: \<open>streamChat\<close> of \<open>lib/api\<close> is not among the sources. The spec
  (4.4) has it classify each framed event into a content delta, a reasoning delta,
  metadata or a terminal event, call the matching handler, and ignore an unrecognised
  tag. The result says whether the stream goes on.
\<close>

definition streamChat_event :: "session \<Rightarrow> wire_event \<Rightarrow> chat_state \<Rightarrow> bool \<times> chat_state" where
  "streamChat_event ses w s =
     (case w of
        ContentDelta chunk \<Rightarrow> (True, onContent ses chunk s)
      | ReasoningDelta chunk \<Rightarrow> (True, onReasoning chunk s)
      | MetaEvent i \<Rightarrow> (True, onMeta i s)
      | UnknownEvent tag \<Rightarrow> (True, s)
      | TerminalEvent ok \<Rightarrow> (False, s))"

definition signal_aborted :: "session \<Rightarrow> chat_state \<Rightarrow> bool" where
  "signal_aborted ses s =
     (if controller ses < length (controllers s) then controllers s ! controller ses else False)"

text \<open>What happens on the page while a session runs: an event arrives on the wire, or
  the user presses Stop.\<close>

datatype occurrence = Wire wire_event | StopPressed

text \<open>
  Modelled from the spec: how \<open>streamChat\<close> (not among the sources) ends. The spec (4.4)
  has the signal abort the transport read, after which no further delta is applied even
  if buffered events arrive; \<open>send\<close> then sees the \<open>Stream aborted\<close> error and runs its
  \<open>finally\<close> block, as it does after a terminal event. The flag says whether the stream
  is still being read; events behind its end have no reader.
\<close>

fun run_session :: "session \<Rightarrow> bool \<Rightarrow> occurrence list \<Rightarrow> chat_state \<Rightarrow> chat_state" where
  "run_session ses active [] s = s"
| "run_session ses active (StopPressed # os) s =
     (if active \<and> signal_aborted ses (stopStreaming s)
      then run_session ses False os (send_finally ses (stopStreaming s))
      else run_session ses active os (stopStreaming s))"
| "run_session ses active (Wire w # os) s =
     (if active then
        (case streamChat_event ses w s of
           (True, s1) \<Rightarrow> run_session ses True os s1
         | (False, s1) \<Rightarrow> run_session ses False os (send_finally ses s1))
      else run_session ses False os s)"

subsection \<open>Example pages\<close>

definition fresh_chat :: chat_state where
  "fresh_chat =
     \<lparr>models = [], model = ''m'', messages = [], input = ''hi'', loading = False,
      currentReasoning = [], chatId = None, assistantReasoning = Map.empty,
      contentStarted = False, abortController = None, controllers = []\<rparr>"

text \<open>The page while the answer to \<open>hi\<close> is streaming, with new text typed in.\<close>

definition streaming_chat :: chat_state where
  "streaming_chat =
     \<lparr>models = [], model = ''m'',
      messages = [Some \<lparr>role = User, content = ''hi''\<rparr>,
                  Some \<lparr>role = Assistant, content = ''Hel''\<rparr>],
      input = ''again'', loading = True,
      currentReasoning = [], chatId = None, assistantReasoning = Map.empty,
      contentStarted = True, abortController = Some 0, controllers = [False]\<rparr>"

section \<open>Properties of the chat page\<close>

lemma js_get_set_same: "js_get (js_set xs i v) i = Some v"
  by (simp add: js_get_def js_set_def nth_append)

lemma length_js_set: "i < length xs \<Longrightarrow> length (js_set xs i v) = length xs"
  by (simp add: js_set_def)

lemma handle_slot:
  assumes "assistantIndex ses < length (messages s)"
    and "js_get (messages s) (assistantIndex ses) = Some \<lparr>role = Assistant, content = acc\<rparr>"
  shows "assistantIndex ses < length (messages (handle ses s c))
    \<and> js_get (messages (handle ses s c)) (assistantIndex ses) =
        Some \<lparr>role = Assistant, content = acc @ concat (content_chunks [c])\<rparr>"
  using assms
  by (cases c) (simp_all add: handle_def onContent_def onReasoning_def onMeta_def
      js_get_set_same length_js_set)

lemma content_chunks_Cons: "content_chunks (c # cs) = content_chunks [c] @ content_chunks cs"
  by (cases c) simp_all

lemma foldl_handle_slot:
  assumes "assistantIndex ses < length (messages s)"
    and "js_get (messages s) (assistantIndex ses) = Some \<lparr>role = Assistant, content = acc\<rparr>"
  shows "js_get (messages (foldl (handle ses) s calls)) (assistantIndex ses) =
        Some \<lparr>role = Assistant, content = acc @ concat (content_chunks calls)\<rparr>"
  using assms
proof (induction calls arbitrary: s acc)
  case Nil
  then show ?case by simp
next
  case (Cons c cs)
  from handle_slot[OF Cons.prems, of c]
  have a: "assistantIndex ses < length (messages (handle ses s c))"
    and b: "js_get (messages (handle ses s c)) (assistantIndex ses) =
        Some \<lparr>role = Assistant, content = acc @ concat (content_chunks [c])\<rparr>"
    by simp_all
  from Cons.IH[OF a b] show ?case
    by (simp add: content_chunks_Cons[of c cs])
qed

lemma send_begin_slot:
  assumes "send_begin s = (Some ses, s1)"
  shows "assistantIndex ses < length (messages s1)
    \<and> js_get (messages s1) (assistantIndex ses) = Some \<lparr>role = Assistant, content = []\<rparr>"
  using assms
  by (auto simp: send_begin_def js_get_def nth_append split: if_splits)

lemma messages_send_finally: "messages (send_finally ses s) = messages s"
  by (simp add: send_finally_def)

lemma fresh_begin:
  "send_begin fresh_chat =
     (Some \<lparr>assistantIndex = 1, controller = 0, seen_currentReasoning = [],
            seen_contentStarted = False\<rparr>,
      fresh_chat\<lparr>messages := [Some \<lparr>role = User, content = ''hi''\<rparr>,
                               Some \<lparr>role = Assistant, content = []\<rparr>],
        currentReasoning := [], contentStarted := False, input := [], loading := True,
        controllers := [False], abortController := Some 0\<rparr>)"
  by (simp add: send_begin_def fresh_chat_def trim_def is_js_space_def needs_download_def)

text \<open>
  C4. In a session started by \<open>send\<close>, whatever handler calls the stream makes, the
  assistant turn (the slot \<open>assistantIndex\<close>) holds the concatenation of the content
  chunks in the order of the calls, both while the stream runs and when \<open>send\<close> has
  finished.
\<close>

theorem content_deltas_concatenate:
  assumes "send_begin s = (Some ses, s1)"
  shows "js_get (messages (foldl (handle ses) s1 calls)) (assistantIndex ses) =
           Some \<lparr>role = Assistant, content = concat (content_chunks calls)\<rparr>
       \<and> js_get (messages (send calls s)) (assistantIndex ses) =
           Some \<lparr>role = Assistant, content = concat (content_chunks calls)\<rparr>"
proof -
  from send_begin_slot[OF assms] have
    a: "assistantIndex ses < length (messages s1)" and
    b: "js_get (messages s1) (assistantIndex ses) = Some \<lparr>role = Assistant, content = []\<rparr>"
    by simp_all
  from foldl_handle_slot[OF a b, of calls] show ?thesis
    by (simp add: send_def assms messages_send_finally)
qed

text \<open>The chunks \<open>Hel\<close>, \<open>lo\<close>, \<open> world\<close> on a new page give \<open>Hello world\<close>.\<close>

theorem content_deltas_concatenate_witness:
  "js_get (messages (send [OnContent ''Hel'', OnContent ''lo'', OnContent '' world''] fresh_chat)) 1
     = Some \<lparr>role = Assistant, content = ''Hello world''\<rparr>"
  using content_deltas_concatenate[OF fresh_begin,
      of "[OnContent ''Hel'', OnContent ''lo'', OnContent '' world'']"]
  by simp

lemma handle_frame:
  "loading (handle ses s c) = loading s"
  "abortController (handle ses s c) = abortController s"
  "controllers (handle ses s c) = controllers s"
  by (cases c; simp add: handle_def onContent_def onReasoning_def onMeta_def)+

lemma foldl_handle_frame:
  "loading (foldl (handle ses) s calls) = loading s
   \<and> abortController (foldl (handle ses) s calls) = abortController s
   \<and> controllers (foldl (handle ses) s calls) = controllers s"
  by (induction calls arbitrary: s) (simp_all add: handle_frame)

lemma run_session_deltas:
  "run_session ses True (map (\<lambda>d. Wire (ContentDelta d)) ds @ rest) s =
     run_session ses True rest (foldl (handle ses) s (map OnContent ds))"
  by (induction ds arbitrary: s) (simp_all add: streamChat_event_def handle_def)

lemma content_chunks_map: "content_chunks (map OnContent ds) = ds"
  by (induction ds) simp_all

lemma stopStreaming_idle: "\<not> loading s \<Longrightarrow> stopStreaming s = s"
  by (simp add: stopStreaming_def split: option.splits)

lemma run_session_ended:
  "\<not> loading s \<Longrightarrow> run_session ses False later s = s"
proof (induction later)
  case Nil
  then show ?case by simp
next
  case (Cons a later)
  then show ?case by (cases a) (simp_all add: stopStreaming_idle)
qed

lemma send_begin_controller:
  assumes "send_begin s = (Some ses, s1)"
  shows "loading s1 \<and> abortController s1 = Some (controller ses)
     \<and> controller ses < length (controllers s1)"
  using assms by (auto simp: send_begin_def split: if_splits)

lemma stop_aborts:
  assumes "loading s" "abortController s = Some (controller ses)"
    "controller ses < length (controllers s)"
  shows "signal_aborted ses (stopStreaming s)" "\<not> loading (stopStreaming s)"
    "messages (stopStreaming s) = messages s"
  using assms by (simp_all add: stopStreaming_def signal_aborted_def)

lemma send_finally_idle: "\<not> loading (send_finally ses s)"
  by (simp add: send_finally_def)

text \<open>
  C5. In a session started by \<open>send\<close>, when the content deltas \<open>ds\<close> have arrived and
  Stop is pressed, then whatever arrives or is pressed later, the assistant turn holds
  the concatenation of \<open>ds\<close> and nothing more; pressing Stop once more on the finished
  session changes nothing.
\<close>

theorem cancellation_keeps_partial_content:
  assumes "send_begin s = (Some ses, s1)"
  shows "js_get (messages (run_session ses True
             (map (\<lambda>d. Wire (ContentDelta d)) ds @ StopPressed # later) s1)) (assistantIndex ses)
           = Some \<lparr>role = Assistant, content = concat ds\<rparr>
       \<and> stopStreaming (run_session ses True
             (map (\<lambda>d. Wire (ContentDelta d)) ds @ StopPressed # later) s1)
           = run_session ses True (map (\<lambda>d. Wire (ContentDelta d)) ds @ StopPressed # later) s1"
proof -
  define s2 where "s2 = foldl (handle ses) s1 (map OnContent ds)"
  from send_begin_controller[OF assms] foldl_handle_frame[of ses s1 "map OnContent ds"]
  have pre: "loading s2" "abortController s2 = Some (controller ses)"
    "controller ses < length (controllers s2)"
    by (simp_all add: s2_def)
  have run: "run_session ses True (map (\<lambda>d. Wire (ContentDelta d)) ds @ StopPressed # later) s1
      = send_finally ses (stopStreaming s2)"
    using stop_aborts(1)[OF pre]
    by (simp add: run_session_deltas s2_def[symmetric] run_session_ended send_finally_idle)
  from send_begin_slot[OF assms] have
    a: "assistantIndex ses < length (messages s1)" and
    b: "js_get (messages s1) (assistantIndex ses) = Some \<lparr>role = Assistant, content = []\<rparr>"
    by simp_all
  have "js_get (messages s2) (assistantIndex ses) = Some \<lparr>role = Assistant, content = concat ds\<rparr>"
    using foldl_handle_slot[OF a b, of "map OnContent ds"]
    by (simp add: s2_def content_chunks_map)
  then show ?thesis
    by (simp add: run messages_send_finally stop_aborts(3)[OF pre] stopStreaming_idle send_finally_idle)
qed

text \<open>\<open>Par\<close>, \<open>ti\<close>, Stop, then \<open>al\<close> and a second Stop: the turn holds \<open>Parti\<close>.\<close>

theorem cancellation_keeps_partial_content_witness:
  "js_get (messages (run_session
        \<lparr>assistantIndex = 1, controller = 0, seen_currentReasoning = [],
            seen_contentStarted = False\<rparr> True
        [Wire (ContentDelta ''Par''), Wire (ContentDelta ''ti''), StopPressed,
         Wire (ContentDelta ''al''), StopPressed]
        (snd (send_begin fresh_chat)))) 1
     = Some \<lparr>role = Assistant, content = ''Parti''\<rparr>"
  using cancellation_keeps_partial_content[OF fresh_begin, of "[''Par'', ''ti'']"
      "[Wire (ContentDelta ''al''), StopPressed]"]
  by (simp add: fresh_begin)

text \<open>
  C6, evaluated. On a new page one session receives the reasoning delta \<open>think\<close> and
  the content delta \<open>ok\<close>. The content is \<open>ok\<close>, so the reasoning stayed out of it;
  but when \<open>send\<close> has finished nothing is attached to the turn and the buffer still
  holds \<open>think\<close>, because the \<open>finally\<close> block tests the \<open>currentReasoning\<close> of its
  closure, which was empty. The next session then attaches \<open>think\<close> to its own turn.
\<close>

theorem reasoning_not_attached:
  "assistantReasoning (send [OnReasoning ''think'', OnContent ''ok''] fresh_chat) 1 = None
   \<and> currentReasoning (send [OnReasoning ''think'', OnContent ''ok''] fresh_chat) = ''think''
   \<and> js_get (messages (send [OnReasoning ''think'', OnContent ''ok''] fresh_chat)) 1
        = Some \<lparr>role = Assistant, content = ''ok''\<rparr>
   \<and> assistantReasoning
        (send [OnReasoning ''more'']
           ((send [OnReasoning ''think'', OnContent ''ok''] fresh_chat)\<lparr>input := ''next''\<rparr>)) 3
        = Some ''think''"
  by (simp add: send_def fresh_begin handle_def onContent_def onReasoning_def send_finally_def
      fresh_chat_def js_set_def js_get_def send_begin_def trim_def is_js_space_def needs_download_def)

text \<open>
  C7, evaluated. While the answer to \<open>hi\<close> is streaming (\<open>loading\<close> is true), the Enter
  key calls \<open>send\<close> with the text \<open>again\<close>: a second session starts, two turns are
  appended and the first session's \<open>AbortController\<close> is replaced.
\<close>

theorem send_while_loading:
  "loading streaming_chat
   \<and> fst (send_begin streaming_chat) =
       Some \<lparr>assistantIndex = 3, controller = 1, seen_currentReasoning = [],
            seen_contentStarted = True\<rparr>
   \<and> messages (snd (send_begin streaming_chat)) =
       [Some \<lparr>role = User, content = ''hi''\<rparr>, Some \<lparr>role = Assistant, content = ''Hel''\<rparr>,
        Some \<lparr>role = User, content = ''again''\<rparr>, Some \<lparr>role = Assistant, content = []\<rparr>]
   \<and> abortController (snd (send_begin streaming_chat)) = Some 1"
  by (simp add: streaming_chat_def send_begin_def trim_def is_js_space_def needs_download_def)

section \<open>Properties of the main process\<close>

subsection \<open>Fields under the basic updates\<close>

lemma emit_fields [simp]:
  "trace (emit ev s) = trace s @ [ev]"
  "runtime (emit ev s) = runtime s"
  "backendProcess (emit ev s) = backendProcess s"
  "backendExtractPromise (emit ev s) = backendExtractPromise s"
  "win (emit ev s) = win s"
  "promises (emit ev s) = promises s"
  by (simp_all add: emit_def)

lemma set_promise_fields [simp]:
  "trace (set_promise p st s) = trace s"
  "runtime (set_promise p st s) = runtime s"
  "backendProcess (set_promise p st s) = backendProcess s"
  "backendExtractPromise (set_promise p st s) = backendExtractPromise s"
  "win (set_promise p st s) = win s"
  "length (promises (set_promise p st s)) = length (promises s)"
  by (simp_all add: set_promise_def)

lemma get_promise_frame [simp]:
  "get_promise (emit ev s) p = get_promise s p"
  "get_promise (s\<lparr>runtime := r\<rparr>) p = get_promise s p"
  "get_promise (s\<lparr>backendExtractPromise := q\<rparr>) p = get_promise s p"
  "get_promise (s\<lparr>backendProcess := b\<rparr>) p = get_promise s p"
  "get_promise (s\<lparr>win := w\<rparr>) p = get_promise s p"
  by (simp_all add: get_promise_def emit_def)

lemma get_promise_set:
  "get_promise (set_promise p st s) q =
     (if q < length (promises s) then (if q = p then Some st else get_promise s q) else None)"
  by (simp add: get_promise_def set_promise_def)

lemma get_promise_length: "get_promise s p = Some st \<Longrightarrow> p < length (promises s)"
  by (simp add: get_promise_def split: if_splits)

lemma get_promise_appended:
  "get_promise (s\<lparr>promises := promises s @ [st]\<rparr>) (length (promises s)) = Some st"
  by (simp add: get_promise_def)

subsection \<open>One step of the extraction\<close>

lemma step_rm:
  assumes "get_promise s p = Some (Pending AwaitRm)"
  shows "extract_step e io p s =
     (case rm_result io of
        RmDone \<Rightarrow> set_promise p (Pending AwaitMkdir) (emit FsMkdir (s\<lparr>runtime := removed_fs\<rparr>))
      | RmFails kv kp km \<Rightarrow>
          set_promise p (Rejected RmError) (s\<lparr>runtime := after_failed_rm kv kp km (runtime s)\<rparr>))"
  by (simp add: extract_step_def assms)

lemma step_mkdir:
  assumes "get_promise s p = Some (Pending AwaitMkdir)"
  shows "extract_step e io p s =
     (case mkdir_result io of
        MkdirDone \<Rightarrow>
          set_promise p (Pending AwaitTar)
            (emit FsUntar (s\<lparr>runtime := (runtime s)\<lparr>dir_exists := True\<rparr>\<rparr>))
      | MkdirFails \<Rightarrow> set_promise p (Rejected MkdirError) s)"
  by (simp add: extract_step_def assms)

lemma step_tar:
  assumes "get_promise s p = Some (Pending AwaitTar)"
  shows "extract_step e io p s =
     (case tar_result io of
        TarDone \<Rightarrow>
          set_promise p (Pending AwaitWrite)
            (emit (FsWriteFile (app_version e))
               (s\<lparr>runtime := (runtime s)
                    \<lparr>venv_exists := True, python_exists := archive_python e\<rparr>\<rparr>))
      | TarFails v py \<Rightarrow>
          set_promise p (Rejected TarError)
            (s\<lparr>runtime := (runtime s)
                 \<lparr>venv_exists := v, python_exists := v \<and> py \<and> archive_python e\<rparr>\<rparr>))"
  by (simp add: extract_step_def assms)

lemma step_write:
  assumes "get_promise s p = Some (Pending AwaitWrite)"
  shows "extract_step e io p s =
     (case write_result io of
        WriteDone \<Rightarrow>
          set_promise p (Fulfilled (runtime_dir e))
            (s\<lparr>runtime := (runtime s)\<lparr>version_file := Marker (app_version e)\<rparr>\<rparr>)
      | WriteFails left \<Rightarrow>
          set_promise p (Rejected WriteError)
            (s\<lparr>runtime := (runtime s)\<lparr>version_file := left\<rparr>\<rparr>))"
  by (simp add: extract_step_def assms)

lemma step_settled:
  "get_promise s p = Some (Fulfilled d) \<Longrightarrow> extract_step e io p s = s"
  "get_promise s p = Some (Rejected err) \<Longrightarrow> extract_step e io p s = s"
  "get_promise s p = None \<Longrightarrow> extract_step e io p s = s"
  by (simp_all add: extract_step_def)

lemma catch_handler_rejected:
  "get_promise s p = Some (Rejected err) \<Longrightarrow>
     catch_handler p s = s\<lparr>backendExtractPromise := None\<rparr>"
  by (simp add: catch_handler_def)

lemma catch_handler_fulfilled:
  "get_promise s p = Some (Fulfilled d) \<Longrightarrow> catch_handler p s = s"
  by (simp add: catch_handler_def)

lemmas step_simps = step_rm step_mkdir step_tar step_write step_settled get_promise_set
  catch_handler_rejected catch_handler_fulfilled

subsection \<open>A run from the first await, by outcome\<close>

lemma run_rm_fails:
  assumes "get_promise s p = Some (Pending AwaitRm)" "rm_result io = RmFails kv kp km"
  shows "get_promise (extract_run e io p s) p = Some (Rejected RmError)"
    "trace (extract_run e io p s) = trace s"
    "runtime (extract_run e io p s) = after_failed_rm kv kp km (runtime s)"
    "backendExtractPromise (extract_run e io p s) = None"
  using assms get_promise_length[OF assms(1)]
  by (simp_all add: extract_run_def step_simps)

lemma run_mkdir_fails:
  assumes "get_promise s p = Some (Pending AwaitRm)" "rm_result io = RmDone"
    "mkdir_result io = MkdirFails"
  shows "get_promise (extract_run e io p s) p = Some (Rejected MkdirError)"
    "trace (extract_run e io p s) = trace s @ [FsMkdir]"
    "runtime (extract_run e io p s) = removed_fs"
    "backendExtractPromise (extract_run e io p s) = None"
  using assms get_promise_length[OF assms(1)]
  by (simp_all add: extract_run_def step_simps)

lemma run_tar_fails:
  assumes "get_promise s p = Some (Pending AwaitRm)" "rm_result io = RmDone"
    "mkdir_result io = MkdirDone" "tar_result io = TarFails v py"
  shows "get_promise (extract_run e io p s) p = Some (Rejected TarError)"
    "trace (extract_run e io p s) = trace s @ [FsMkdir, FsUntar]"
    "runtime (extract_run e io p s) =
       \<lparr>dir_exists = True, venv_exists = v,
        python_exists = (v \<and> py \<and> archive_python e), version_file = NoMarker\<rparr>"
    "backendExtractPromise (extract_run e io p s) = None"
  using assms get_promise_length[OF assms(1)]
  by (simp_all add: extract_run_def step_simps removed_fs_def)

lemma run_write_fails:
  assumes "get_promise s p = Some (Pending AwaitRm)" "rm_result io = RmDone"
    "mkdir_result io = MkdirDone" "tar_result io = TarDone" "write_result io = WriteFails left"
  shows "get_promise (extract_run e io p s) p = Some (Rejected WriteError)"
    "trace (extract_run e io p s) = trace s @ [FsMkdir, FsUntar, FsWriteFile (app_version e)]"
    "runtime (extract_run e io p s) =
       \<lparr>dir_exists = True, venv_exists = True,
        python_exists = archive_python e, version_file = left\<rparr>"
    "backendExtractPromise (extract_run e io p s) = None"
  using assms get_promise_length[OF assms(1)]
  by (simp_all add: extract_run_def step_simps removed_fs_def)

lemma run_all_done:
  assumes "get_promise s p = Some (Pending AwaitRm)" "rm_result io = RmDone"
    "mkdir_result io = MkdirDone" "tar_result io = TarDone" "write_result io = WriteDone"
  shows "get_promise (extract_run e io p s) p = Some (Fulfilled (runtime_dir e))"
    "trace (extract_run e io p s) = trace s @ [FsMkdir, FsUntar, FsWriteFile (app_version e)]"
    "runtime (extract_run e io p s) =
       \<lparr>dir_exists = True, venv_exists = True,
        python_exists = archive_python e, version_file = Marker (app_version e)\<rparr>"
    "backendExtractPromise (extract_run e io p s) = backendExtractPromise s"
  using assms get_promise_length[OF assms(1)]
  by (simp_all add: extract_run_def step_simps removed_fs_def)

lemma run_fulfilled:
  assumes "get_promise s p = Some (Fulfilled d)"
  shows "extract_run e io p s = s"
  using assms by (simp add: extract_run_def step_simps)

lemma run_rejected:
  assumes "get_promise s p = Some (Rejected err)"
  shows "extract_run e io p s = s\<lparr>backendExtractPromise := None\<rparr>"
  using assms by (simp add: extract_run_def step_simps)

subsection \<open>A fresh call\<close>

lemma ensure_fresh:
  assumes "backendExtractPromise s = None"
  shows "fst (ensureProductionBackend e s) = length (promises s)"
    "get_promise (snd (ensureProductionBackend e s)) (length (promises s))
       = Some (fst (extract_begin e s))"
    "trace (snd (ensureProductionBackend e s)) = trace (snd (extract_begin e s))"
    "runtime (snd (ensureProductionBackend e s)) = runtime s"
    "backendExtractPromise (snd (ensureProductionBackend e s)) = Some (length (promises s))"
  using assms
  by (simp_all add: ensureProductionBackend_def extract_begin_def get_promise_def emit_def
      split: prod.splits sum.splits)

lemma ensure_awaited_unfold:
  "ensure_awaited e io s =
     (fst (ensureProductionBackend e s),
      extract_run e io (fst (ensureProductionBackend e s)) (snd (ensureProductionBackend e s)))"
  by (simp add: ensure_awaited_def split: prod.splits)

lemma fst_ensure:
  "backendExtractPromise s = None \<Longrightarrow> fst (ensure_awaited e io s) = length (promises s)"
  by (simp add: ensure_awaited_unfold ensure_fresh(1))

lemma needsExtract_iff:
  "(needsExtract e fs = Inr True) =
     (\<not> venv_exists fs \<or> version_file fs = NoMarker
      \<or> (\<exists>c. version_file fs = Marker c \<and> trim c \<noteq> app_version e))"
  by (simp add: needsExtract_def split: marker.splits)

lemma needs_error:
  "needsExtract e fs = Inl err \<Longrightarrow>
     err = ReadError \<and> venv_exists fs \<and> version_file fs = Unreadable"
  by (simp add: needsExtract_def split: if_splits marker.splits)

lemma needs_readable:
  "version_file fs \<noteq> Unreadable \<Longrightarrow> \<exists>b. needsExtract e fs = Inr b"
  by (auto simp: needsExtract_def split: marker.splits)

lemma needs_unmarked: "version_file fs = NoMarker \<Longrightarrow> needsExtract e fs = Inr True"
  by (simp add: needsExtract_def)

lemma needs_after_failed_rm:
  "needsExtract e fs = Inr True \<Longrightarrow>
     needsExtract e (after_failed_rm kv kp km fs) = Inr True"
  by (auto simp: needsExtract_def after_failed_rm_def split: marker.splits if_splits)

text \<open>The eight ways a fresh, awaited call ends.\<close>

lemma awaited_cases:
  assumes fresh: "backendExtractPromise s = None"
    and call: "ensure_awaited e io s = (p, s')"
  obtains
    (no_archive) "\<not> archive_exists e"
      "get_promise s' p = Some (Rejected ArchiveMissing)" "trace s' = trace s"
      "runtime s' = runtime s" "backendExtractPromise s' = None"
  | (unreadable) err where "archive_exists e" "needsExtract e (runtime s) = Inl err"
      "get_promise s' p = Some (Rejected err)" "trace s' = trace s"
      "runtime s' = runtime s" "backendExtractPromise s' = None"
  | (not_needed) "archive_exists e" "needsExtract e (runtime s) = Inr False"
      "get_promise s' p = Some (Fulfilled (runtime_dir e))" "trace s' = trace s"
      "runtime s' = runtime s" "backendExtractPromise s' = Some p"
  | (rm_fails) kv kp km where "archive_exists e" "needsExtract e (runtime s) = Inr True"
      "rm_result io = RmFails kv kp km"
      "get_promise s' p = Some (Rejected RmError)" "trace s' = trace s @ [FsRm]"
      "runtime s' = after_failed_rm kv kp km (runtime s)" "backendExtractPromise s' = None"
  | (mkdir_fails) "archive_exists e" "needsExtract e (runtime s) = Inr True"
      "rm_result io = RmDone" "mkdir_result io = MkdirFails"
      "get_promise s' p = Some (Rejected MkdirError)" "trace s' = trace s @ [FsRm, FsMkdir]"
      "runtime s' = removed_fs" "backendExtractPromise s' = None"
  | (tar_fails) v py where "archive_exists e" "needsExtract e (runtime s) = Inr True"
      "rm_result io = RmDone" "mkdir_result io = MkdirDone" "tar_result io = TarFails v py"
      "get_promise s' p = Some (Rejected TarError)"
      "trace s' = trace s @ [FsRm, FsMkdir, FsUntar]"
      "runtime s' = \<lparr>dir_exists = True, venv_exists = v,
          python_exists = (v \<and> py \<and> archive_python e), version_file = NoMarker\<rparr>"
      "backendExtractPromise s' = None"
  | (write_fails) left where "archive_exists e" "needsExtract e (runtime s) = Inr True"
      "rm_result io = RmDone" "mkdir_result io = MkdirDone" "tar_result io = TarDone"
      "write_result io = WriteFails left"
      "get_promise s' p = Some (Rejected WriteError)"
      "trace s' = trace s @ [FsRm, FsMkdir, FsUntar, FsWriteFile (app_version e)]"
      "runtime s' = \<lparr>dir_exists = True, venv_exists = True,
          python_exists = archive_python e, version_file = left\<rparr>"
      "backendExtractPromise s' = None"
  | (all_done) "archive_exists e" "needsExtract e (runtime s) = Inr True"
      "rm_result io = RmDone" "mkdir_result io = MkdirDone" "tar_result io = TarDone"
      "write_result io = WriteDone"
      "get_promise s' p = Some (Fulfilled (runtime_dir e))"
      "trace s' = trace s @ [FsRm, FsMkdir, FsUntar, FsWriteFile (app_version e)]"
      "runtime s' = \<lparr>dir_exists = True, venv_exists = True,
          python_exists = archive_python e, version_file = Marker (app_version e)\<rparr>"
      "backendExtractPromise s' = Some p"
proof -
  define s0 where "s0 = snd (ensureProductionBackend e s)"
  note f = ensure_fresh[OF fresh, of e, folded s0_def]
  from call have p: "length (promises s) = p" and s': "s' = extract_run e io p s0"
    by (auto simp: ensure_awaited_unfold f(1) s0_def)
  show ?thesis
  proof (cases "archive_exists e")
    case False
    then have g: "get_promise s0 p = Some (Rejected ArchiveMissing)" and t: "trace s0 = trace s"
      using f(2,3) by (simp_all add: p extract_begin_def)
    show ?thesis
      by (rule no_archive) (simp_all add: False s' run_rejected[OF g] g t f(4))
  next
    case a: True
    show ?thesis
    proof (cases "needsExtract e (runtime s)")
      case (Inl err)
      then have g: "get_promise s0 p = Some (Rejected err)" and t: "trace s0 = trace s"
        using a f(2,3) by (simp_all add: p extract_begin_def)
      show ?thesis
        by (rule unreadable[OF a Inl]) (simp_all add: s' run_rejected[OF g] g t f(4))
    next
      case (Inr needs)
      show ?thesis
      proof (cases needs)
      case False
      with Inr have nn: "needsExtract e (runtime s) = Inr False" by simp
      then have g: "get_promise s0 p = Some (Fulfilled (runtime_dir e))" and t: "trace s0 = trace s"
        using a f(2,3) by (simp_all add: p extract_begin_def)
      show ?thesis
        by (rule not_needed[OF a nn]) (simp_all add: s' run_fulfilled[OF g] g t f(4,5) p)
    next
      case True
      with Inr have n: "needsExtract e (runtime s) = Inr True" by simp
      then have g: "get_promise s0 p = Some (Pending AwaitRm)" and t: "trace s0 = trace s @ [FsRm]"
        using a f(2,3) by (simp_all add: p extract_begin_def)
      show ?thesis
      proof (cases "rm_result io")
        case (RmFails kv kp km)
        show ?thesis
          by (rule rm_fails[OF a n RmFails])
            (simp_all add: s' run_rm_fails[OF g RmFails] t f(4))
      next
        case r: RmDone
        show ?thesis
        proof (cases "mkdir_result io")
          case MkdirFails
          show ?thesis
            by (rule mkdir_fails[OF a n r MkdirFails])
              (simp_all add: s' run_mkdir_fails[OF g r MkdirFails] t)
        next
          case m: MkdirDone
          show ?thesis
          proof (cases "tar_result io")
            case (TarFails v py)
            show ?thesis
              by (rule tar_fails[OF a n r m TarFails])
                (simp_all add: s' run_tar_fails[OF g r m TarFails] t)
          next
            case td: TarDone
            show ?thesis
            proof (cases "write_result io")
              case (WriteFails left)
              show ?thesis
                by (rule write_fails[OF a n r m td WriteFails])
                  (simp_all add: s' run_write_fails[OF g r m td WriteFails] t)
            next
              case WriteDone
              show ?thesis
                by (rule all_done[OF a n r m td WriteDone])
                  (simp_all add: s' run_all_done[OF g r m td WriteDone] t f(5) p)
            qed
          qed
        qed
      qed
      qed
    qed
  qed
qed

lemma reextracts_when_needed:
  assumes "backendExtractPromise s = None" "archive_exists e" "needsExtract e (runtime s) = Inr True"
  shows "FsRm \<in> set (new_events s (snd (ensure_awaited e io s)))"
proof (rule awaited_cases[OF assms(1), of e io "fst (ensure_awaited e io s)" "snd (ensure_awaited e io s)"])
qed (use assms in \<open>simp_all add: new_events_def\<close>)

lemma reextraction_iff:
  assumes fresh: "backendExtractPromise s = None"
    and call: "ensure_awaited e io s = (p, s')" and "archive_exists e"
  shows "(FsRm \<in> set (new_events s s')) = (needsExtract e (runtime s) = Inr True)"
proof (rule awaited_cases[OF fresh call])
qed (use assms in \<open>simp_all add: new_events_def\<close>)

lemma reextraction_order:
  assumes fresh: "backendExtractPromise s = None"
    and call: "ensure_awaited e io s = (p, s')"
  shows "prefix (new_events s s') [FsRm, FsMkdir, FsUntar, FsWriteFile (app_version e)]"
proof (rule awaited_cases[OF fresh call])
qed (simp_all add: new_events_def)

lemma reextraction_all_done:
  assumes fresh: "backendExtractPromise s = None"
    and call: "ensure_awaited e io s = (p, s')"
    and "archive_exists e" "version_file (runtime s) \<noteq> Unreadable"
      "rm_result io = RmDone" "mkdir_result io = MkdirDone"
      "tar_result io = TarDone" "write_result io = WriteDone"
  shows "get_promise s' p = Some (Fulfilled (runtime_dir e))"
proof (rule awaited_cases[OF fresh call])
qed (use assms in \<open>auto dest: needs_error\<close>)

lemma reextraction_unreadable:
  assumes fresh: "backendExtractPromise s = None"
    and call: "ensure_awaited e io s = (p, s')"
    and "archive_exists e" "venv_exists (runtime s)" "version_file (runtime s) = Unreadable"
  shows "new_events s s' = [] \<and> runtime s' = runtime s
    \<and> get_promise s' p = Some (Rejected ReadError)"
proof (rule awaited_cases[OF fresh call])
qed (use assms in \<open>auto simp: new_events_def needsExtract_def\<close>)

lemma reextraction_done:
  assumes fresh: "backendExtractPromise s = None"
    and call: "ensure_awaited e io s = (p, s')"
    and "FsRm \<in> set (new_events s s')" "get_promise s' p = Some (Fulfilled d)"
  shows "new_events s s' = [FsRm, FsMkdir, FsUntar, FsWriteFile (app_version e)]
            \<and> runtime s' =
                \<lparr>dir_exists = True, venv_exists = True, python_exists = archive_python e,
                 version_file = Marker (app_version e)\<rparr>"
proof (rule awaited_cases[OF fresh call])
qed (use assms in \<open>simp_all add: new_events_def\<close>)

lemma reextraction_failed:
  assumes fresh: "backendExtractPromise s = None"
    and call: "ensure_awaited e io s = (p, s')"
    and rej: "get_promise s' p = Some (Rejected err)"
    and err: "err \<in> {RmError, MkdirError, TarError}"
  shows "backendExtractPromise s' = None \<and> archive_exists e
            \<and> needsExtract e (runtime s') = Inr True
            \<and> (err \<noteq> RmError \<longrightarrow> version_file (runtime s') = NoMarker)"
proof (rule awaited_cases[OF fresh call])
qed (use assms in
    \<open>auto simp: needs_after_failed_rm needs_unmarked removed_fs_def dest: needs_error\<close>)

text \<open>
  C1, as amended. A fresh call of \<open>ensureProductionBackend\<close>, awaited: (1) if the archive
  exists, the runtime directory is removed exactly when \<open>venv\<close> is absent, or the version
  file is absent, or its trimmed content differs from the app version; (2) if the
  archive is missing, nothing is touched and the call fails; (3) the operations issued
  are an initial part of remove, mkdir, unpack, write marker, in this order; (4) if
  \<open>venv\<close> exists and the version file cannot be read, nothing is touched and the call
  fails; (5) otherwise, when all four operations succeed the call succeeds, and (6) a
  successful re-extraction leaves the marker at the app version; (7) when the removal,
  the mkdir or the unpack fails, the stored promise is cleared, the directory still
  needs extraction (it has no marker once the removal has succeeded), and the next call
  removes it again.
\<close>

theorem ensureProductionBackend_reextraction:
  assumes fresh: "backendExtractPromise s = None"
    and call: "ensure_awaited e io s = (p, s')"
  shows "(archive_exists e \<longrightarrow>
            (FsRm \<in> set (new_events s s')) =
              (\<not> venv_exists (runtime s) \<or> version_file (runtime s) = NoMarker
               \<or> (\<exists>c. version_file (runtime s) = Marker c \<and> trim c \<noteq> app_version e)))
       \<and> (\<not> archive_exists e \<longrightarrow>
            new_events s s' = [] \<and> runtime s' = runtime s
            \<and> get_promise s' p = Some (Rejected ArchiveMissing))
       \<and> prefix (new_events s s') [FsRm, FsMkdir, FsUntar, FsWriteFile (app_version e)]
       \<and> (archive_exists e \<and> venv_exists (runtime s)
            \<and> version_file (runtime s) = Unreadable \<longrightarrow>
            new_events s s' = [] \<and> runtime s' = runtime s
            \<and> get_promise s' p = Some (Rejected ReadError))
       \<and> (archive_exists e \<and> version_file (runtime s) \<noteq> Unreadable
            \<and> rm_result io = RmDone \<and> mkdir_result io = MkdirDone
            \<and> tar_result io = TarDone \<and> write_result io = WriteDone \<longrightarrow>
            get_promise s' p = Some (Fulfilled (runtime_dir e)))
       \<and> (FsRm \<in> set (new_events s s') \<and> get_promise s' p = Some (Fulfilled (runtime_dir e)) \<longrightarrow>
            new_events s s' = [FsRm, FsMkdir, FsUntar, FsWriteFile (app_version e)]
            \<and> runtime s' =
                \<lparr>dir_exists = True, venv_exists = True, python_exists = archive_python e,
                 version_file = Marker (app_version e)\<rparr>)
       \<and> (\<forall>err. get_promise s' p = Some (Rejected err) \<and> err \<in> {RmError, MkdirError, TarError} \<longrightarrow>
            backendExtractPromise s' = None
            \<and> needsExtract e (runtime s') = Inr True
            \<and> (err \<noteq> RmError \<longrightarrow> version_file (runtime s') = NoMarker)
            \<and> (\<forall>io'. FsRm \<in> set (new_events s' (snd (ensure_awaited e io' s')))))"
proof -
  have c1: "archive_exists e \<Longrightarrow>
            (FsRm \<in> set (new_events s s')) =
              (\<not> venv_exists (runtime s) \<or> version_file (runtime s) = NoMarker
               \<or> (\<exists>c. version_file (runtime s) = Marker c \<and> trim c \<noteq> app_version e))"
    using reextraction_iff[OF fresh call] by (simp add: needsExtract_iff)
  have c2: "\<not> archive_exists e \<Longrightarrow>
            new_events s s' = [] \<and> runtime s' = runtime s
            \<and> get_promise s' p = Some (Rejected ArchiveMissing)"
    by (rule awaited_cases[OF fresh call]) (simp_all add: new_events_def)
  have c3: "prefix (new_events s s') [FsRm, FsMkdir, FsUntar, FsWriteFile (app_version e)]"
    by (rule reextraction_order[OF fresh call])
  have c4: "archive_exists e \<and> version_file (runtime s) \<noteq> Unreadable
            \<and> rm_result io = RmDone \<and> mkdir_result io = MkdirDone
            \<and> tar_result io = TarDone \<and> write_result io = WriteDone \<Longrightarrow>
            get_promise s' p = Some (Fulfilled (runtime_dir e))"
    using reextraction_all_done[OF fresh call] by blast
  have c4': "archive_exists e \<and> venv_exists (runtime s)
            \<and> version_file (runtime s) = Unreadable \<Longrightarrow>
            new_events s s' = [] \<and> runtime s' = runtime s
            \<and> get_promise s' p = Some (Rejected ReadError)"
    using reextraction_unreadable[OF fresh call] by blast
  have c5: "FsRm \<in> set (new_events s s') \<and> get_promise s' p = Some (Fulfilled (runtime_dir e)) \<Longrightarrow>
            new_events s s' = [FsRm, FsMkdir, FsUntar, FsWriteFile (app_version e)]
            \<and> runtime s' =
                \<lparr>dir_exists = True, venv_exists = True, python_exists = archive_python e,
                 version_file = Marker (app_version e)\<rparr>"
    using reextraction_done[OF fresh call] by blast
  have c6: "backendExtractPromise s' = None
            \<and> needsExtract e (runtime s') = Inr True
            \<and> (err \<noteq> RmError \<longrightarrow> version_file (runtime s') = NoMarker)
            \<and> (\<forall>io'. FsRm \<in> set (new_events s' (snd (ensure_awaited e io' s'))))"
    if "get_promise s' p = Some (Rejected err) \<and> err \<in> {RmError, MkdirError, TarError}" for err
  proof -
    from that reextraction_failed[OF fresh call, of err]
    have f: "backendExtractPromise s' = None" "archive_exists e" "needsExtract e (runtime s') = Inr True"
       "err \<noteq> RmError \<longrightarrow> version_file (runtime s') = NoMarker"
      by blast+
    from reextracts_when_needed[OF f(1) f(2) f(3)] f show ?thesis by blast
  qed
  from c1 c2 c3 c4 c4' c5 c6 show ?thesis by blast
qed


lemmas example_defs = packaged_env_def dev_env_def all_ok_def installed_def init_state_def
  removed_fs_def needsExtract_def trim_def is_js_space_def after_failed_rm_def

lemma split_call: "ensure_awaited e io s = (fst (ensure_awaited e io s), snd (ensure_awaited e io s))"
  by simp

lemma fresh_init: "backendExtractPromise (init_state fs) = None"
  by (simp add: init_state_def)

lemma example_no_archive:
  "new_events (init_state removed_fs)
     (snd (ensure_awaited (packaged_env\<lparr>archive_exists := False\<rparr>) all_ok (init_state removed_fs)))
     = []"
  by (rule awaited_cases[OF fresh_init split_call, of "packaged_env\<lparr>archive_exists := False\<rparr>"
        all_ok removed_fs])
    (simp_all add: example_defs new_events_def)

lemma example_newline:
  "new_events (init_state (installed (''1.0.0'' @ [CHR 0x0A])))
     (snd (ensure_awaited (packaged_env\<lparr>app_version := ''1.0.0''\<rparr>) all_ok
        (init_state (installed (''1.0.0'' @ [CHR 0x0A])))))
     = []"
  by (rule awaited_cases[OF fresh_init split_call, of "packaged_env\<lparr>app_version := ''1.0.0''\<rparr>"
        all_ok "installed (''1.0.0'' @ [CHR 0x0A])"])
    (simp_all add: example_defs new_events_def)

lemma example_rm_fails:
  "version_file (runtime
     (snd (ensure_awaited packaged_env (all_ok\<lparr>rm_result := RmFails True True True\<rparr>)
        (init_state (installed ''1.0.0'')))))
     = Marker ''1.0.0''
   \<and> get_promise
     (snd (ensure_awaited packaged_env (all_ok\<lparr>rm_result := RmFails True True True\<rparr>)
        (init_state (installed ''1.0.0'')))) 0 = Some (Rejected RmError)"
  by (rule awaited_cases[OF fresh_init split_call, of packaged_env
        "all_ok\<lparr>rm_result := RmFails True True True\<rparr>" "installed ''1.0.0''"])
    (simp_all add: example_defs new_events_def fst_ensure)


text \<open>
  C1 as stated fails at three inputs. (a) The payload is absent and the archive is
  missing: nothing is removed. (b) The marker holds \<open>1.0.0\<close> followed by a newline, the app
  version is \<open>1.0.0\<close>: the content differs from the version, and nothing is removed.
  (c) The directory is marked \<open>1.0.0\<close>, the app version is \<open>1.1.0\<close>, and the removal
  fails without removing anything: the run failed before the marker write, and the
  directory is still marked.
\<close>

theorem ensureProductionBackend_reextraction_counterexample:
  "\<not> venv_exists (runtime (init_state removed_fs))
   \<and> new_events (init_state removed_fs)
       (snd (ensure_awaited (packaged_env\<lparr>archive_exists := False\<rparr>) all_ok
          (init_state removed_fs))) = []
   \<and> version_file (runtime (init_state (installed (''1.0.0'' @ [CHR 0x0A]))))
       \<noteq> Marker (app_version (packaged_env\<lparr>app_version := ''1.0.0''\<rparr>))
   \<and> new_events (init_state (installed (''1.0.0'' @ [CHR 0x0A])))
       (snd (ensure_awaited (packaged_env\<lparr>app_version := ''1.0.0''\<rparr>) all_ok
          (init_state (installed (''1.0.0'' @ [CHR 0x0A]))))) = []
   \<and> get_promise
       (snd (ensure_awaited packaged_env (all_ok\<lparr>rm_result := RmFails True True True\<rparr>)
          (init_state (installed ''1.0.0'')))) 0 = Some (Rejected RmError)
   \<and> version_file (runtime
       (snd (ensure_awaited packaged_env (all_ok\<lparr>rm_result := RmFails True True True\<rparr>)
          (init_state (installed ''1.0.0''))))) = Marker ''1.0.0''"
  using example_no_archive example_newline example_rm_fails
  by (simp add: init_state_def removed_fs_def installed_def packaged_env_def)

lemma example_upgrade:
  "get_promise (snd (ensure_awaited packaged_env all_ok (init_state (installed ''1.0.0'')))) 0
     = Some (Fulfilled (runtime_dir packaged_env))"
  by (rule awaited_cases[OF fresh_init split_call, of packaged_env all_ok "installed ''1.0.0''"])
    (simp_all add: example_defs fst_ensure)

lemma example_tar_fails:
  "get_promise
     (snd (ensure_awaited packaged_env (all_ok\<lparr>tar_result := TarFails True False\<rparr>)
        (init_state (installed ''1.0.0'')))) 0 = Some (Rejected TarError)"
  by (rule awaited_cases[OF fresh_init split_call, of packaged_env
        "all_ok\<lparr>tar_result := TarFails True False\<rparr>" "installed ''1.0.0''"])
    (simp_all add: example_defs fst_ensure)

text \<open>
  A directory marked \<open>1.0.0\<close> and the app version \<open>1.1.0\<close>: the four operations are issued
  and the directory ends marked \<open>1.1.0\<close>. With a missing archive nothing is issued. When
  the unpack fails half-way, no marker is left and the next call removes the directory
  again.
\<close>

theorem ensureProductionBackend_reextraction_witness:
  "new_events (init_state (installed ''1.0.0''))
       (snd (ensure_awaited packaged_env all_ok (init_state (installed ''1.0.0''))))
     = [FsRm, FsMkdir, FsUntar, FsWriteFile ''1.1.0'']
   \<and> version_file (runtime
       (snd (ensure_awaited packaged_env all_ok (init_state (installed ''1.0.0'')))))
     = Marker ''1.1.0''
   \<and> new_events (init_state removed_fs)
       (snd (ensure_awaited (packaged_env\<lparr>archive_exists := False\<rparr>) all_ok
          (init_state removed_fs))) = []
   \<and> version_file (runtime
       (snd (ensure_awaited packaged_env (all_ok\<lparr>tar_result := TarFails True False\<rparr>)
          (init_state (installed ''1.0.0''))))) = NoMarker
   \<and> FsRm \<in> set (new_events
        (snd (ensure_awaited packaged_env (all_ok\<lparr>tar_result := TarFails True False\<rparr>)
          (init_state (installed ''1.0.0''))))
        (snd (ensure_awaited packaged_env all_ok
          (snd (ensure_awaited packaged_env (all_ok\<lparr>tar_result := TarFails True False\<rparr>)
            (init_state (installed ''1.0.0'')))))))"
  using
    ensureProductionBackend_reextraction[OF fresh_init
      split_call[of packaged_env all_ok "init_state (installed ''1.0.0'')"]]
    ensureProductionBackend_reextraction[OF fresh_init
      split_call[of "packaged_env\<lparr>archive_exists := False\<rparr>" all_ok "init_state removed_fs"]]
    ensureProductionBackend_reextraction[OF fresh_init
      split_call[of packaged_env "all_ok\<lparr>tar_result := TarFails True False\<rparr>"
        "init_state (installed ''1.0.0'')"]]
    example_upgrade example_tar_fails
  apply (simp add: fst_ensure fresh_init)
  apply (simp add: example_defs)
  done

subsection \<open>Repeated and overlapping calls\<close>

lemma ensure_cached:
  "backendExtractPromise s = Some p \<Longrightarrow> ensureProductionBackend e s = (p, s)"
  by (simp add: ensureProductionBackend_def)

lemma awaited_cached_fulfilled:
  "backendExtractPromise s = Some p \<Longrightarrow> get_promise s p = Some (Fulfilled d) \<Longrightarrow>
     ensure_awaited e io s = (p, s)"
  by (simp add: ensure_awaited_def ensure_cached run_fulfilled)

lemma step_keeps_variable:
  "backendExtractPromise (extract_step e io p s) = backendExtractPromise s"
  by (simp add: extract_step_def set_promise_def emit_def
      split: option.splits promise_state.splits extract_pc.splits rm_result.splits
        mkdir_result.splits tar_result.splits write_result.splits)

lemma steps_keep_variable:
  "backendExtractPromise ((extract_step e io p ^^ n) s) = backendExtractPromise s"
  by (induction n) (simp_all add: step_keeps_variable)

lemma fulfilled_twice:
  assumes fresh: "backendExtractPromise s = None"
    and call: "ensure_awaited e io s = (p, s1)"
    and ok: "get_promise s1 p = Some (Fulfilled d)"
  shows "backendExtractPromise s1 = Some p \<and> d = runtime_dir e
    \<and> count_list (new_events s s1) FsUntar = (if needsExtract e (runtime s) = Inr True then 1 else 0)"
proof (rule awaited_cases[OF fresh call])
qed (use ok in \<open>simp_all add: new_events_def\<close>)

text \<open>
  C2, as amended. After a fresh call that succeeded, a second call returns the same
  promise (so the same path) and changes nothing; the two calls together unpack once
  when the runtime needed extraction and not at all when it did not. A call made while
  the first one's promise is pending, after any number of its steps, returns that
  promise and changes nothing.
\<close>

theorem ensureProductionBackend_idempotent:
  assumes fresh: "backendExtractPromise s = None"
  shows "(\<forall>p s1 d io'.
            ensure_awaited e io s = (p, s1) \<and> get_promise s1 p = Some (Fulfilled d) \<longrightarrow>
              ensure_awaited e io' s1 = (p, s1)
              \<and> d = runtime_dir e
              \<and> count_list (new_events s (snd (ensure_awaited e io' s1))) FsUntar
                  = (if needsExtract e (runtime s) = Inr True then 1 else 0))
       \<and> (\<forall>n q s0 pc.
            ensureProductionBackend e s = (q, s0)
            \<and> get_promise ((extract_step e io q ^^ n) s0) q = Some (Pending pc) \<longrightarrow>
              ensureProductionBackend e ((extract_step e io q ^^ n) s0)
                = (q, (extract_step e io q ^^ n) s0))"
proof -
  have a: "ensure_awaited e io' s1 = (p, s1) \<and> d = runtime_dir e
        \<and> count_list (new_events s (snd (ensure_awaited e io' s1))) FsUntar
            = (if needsExtract e (runtime s) = Inr True then 1 else 0)"
    if "ensure_awaited e io s = (p, s1) \<and> get_promise s1 p = Some (Fulfilled d)"
    for p s1 d io'
  proof -
    from that have call: "ensure_awaited e io s = (p, s1)"
      and ok: "get_promise s1 p = Some (Fulfilled d)" by simp_all
    from fulfilled_twice[OF fresh call ok] have v: "backendExtractPromise s1 = Some p"
      and d: "d = runtime_dir e"
      and c: "count_list (new_events s s1) FsUntar = (if needsExtract e (runtime s) = Inr True then 1 else 0)"
      by simp_all
    from awaited_cached_fulfilled[OF v ok] have "ensure_awaited e io' s1 = (p, s1)" .
    with d c show ?thesis by simp
  qed
  have b: "ensureProductionBackend e ((extract_step e io q ^^ n) s0)
                = (q, (extract_step e io q ^^ n) s0)"
    if "ensureProductionBackend e s = (q, s0)
        \<and> get_promise ((extract_step e io q ^^ n) s0) q = Some (Pending pc)"
    for n q s0 pc
  proof -
    from that ensure_fresh(1,5)[OF fresh, of e]
    have "backendExtractPromise s0 = Some q" by simp
    then have "backendExtractPromise ((extract_step e io q ^^ n) s0) = Some q"
      by (simp add: steps_keep_variable)
    then show ?thesis by (rule ensure_cached)
  qed
  from a b show ?thesis by blast
qed

text \<open>
  C2 as stated fails when the runtime is already extracted at the app version: both
  calls succeed and nothing is unpacked.
\<close>

lemma example_current:
  "get_promise (snd (ensure_awaited packaged_env all_ok (init_state (installed ''1.1.0'')))) 0
     = Some (Fulfilled (runtime_dir packaged_env))
   \<and> trace (snd (ensure_awaited packaged_env all_ok (init_state (installed ''1.1.0'')))) = []
   \<and> backendExtractPromise
       (snd (ensure_awaited packaged_env all_ok (init_state (installed ''1.1.0'')))) = Some 0"
  by (rule awaited_cases[OF fresh_init split_call, of packaged_env all_ok "installed ''1.1.0''"])
    (simp_all add: example_defs fst_ensure)

theorem ensureProductionBackend_idempotent_counterexample:
  "get_promise (snd (ensure_awaited packaged_env all_ok (init_state (installed ''1.1.0'')))) 0
     = Some (Fulfilled (runtime_dir packaged_env))
   \<and> get_promise
       (snd (ensure_awaited packaged_env all_ok
          (snd (ensure_awaited packaged_env all_ok (init_state (installed ''1.1.0'')))))) 0
     = Some (Fulfilled (runtime_dir packaged_env))
   \<and> count_list
       (trace (snd (ensure_awaited packaged_env all_ok
          (snd (ensure_awaited packaged_env all_ok (init_state (installed ''1.1.0''))))))) FsUntar
     = 0"
proof -
  let ?s1 = "snd (ensure_awaited packaged_env all_ok (init_state (installed ''1.1.0'')))"
  from example_current have v: "backendExtractPromise ?s1 = Some 0"
    and ok: "get_promise ?s1 0 = Some (Fulfilled (runtime_dir packaged_env))"
    and tr: "trace ?s1 = []" by simp_all
  from awaited_cached_fulfilled[OF v ok, of packaged_env all_ok] ok tr show ?thesis by simp
qed

lemma example_first_install:
  "get_promise (snd (ensure_awaited packaged_env all_ok (init_state removed_fs))) 0
     = Some (Fulfilled (runtime_dir packaged_env))"
  by (rule awaited_cases[OF fresh_init split_call, of packaged_env all_ok removed_fs])
    (simp_all add: example_defs fst_ensure)

lemma example_in_flight:
  "get_promise ((extract_step packaged_env all_ok 0 ^^ 2)
      (snd (ensureProductionBackend packaged_env (init_state removed_fs)))) 0
     = Some (Pending AwaitTar)"
  by (simp add: eval_nat_numeral ensureProductionBackend_def extract_begin_def init_state_def
      extract_step_def get_promise_def set_promise_def emit_def example_defs)

text \<open>
  A first launch (nothing extracted yet): the second call returns what the first
  returned and changes nothing, the two calls unpack once, and a call made after two
  steps of the first returns promise 0.
\<close>

theorem ensureProductionBackend_idempotent_witness:
  "ensure_awaited packaged_env all_ok
       (snd (ensure_awaited packaged_env all_ok (init_state removed_fs)))
     = (0, snd (ensure_awaited packaged_env all_ok (init_state removed_fs)))
   \<and> count_list
       (trace (snd (ensure_awaited packaged_env all_ok
          (snd (ensure_awaited packaged_env all_ok (init_state removed_fs)))))) FsUntar
     = 1
   \<and> fst (ensureProductionBackend packaged_env
       ((extract_step packaged_env all_ok 0 ^^ 2)
          (snd (ensureProductionBackend packaged_env (init_state removed_fs))))) = 0"
proof -
  let ?s = "init_state removed_fs"
  let ?s1 = "snd (ensure_awaited packaged_env all_ok ?s)"
  note t = ensureProductionBackend_idempotent[OF fresh_init, of packaged_env all_ok removed_fs]
  have f: "fst (ensure_awaited packaged_env all_ok ?s) = 0"
    by (simp add: fst_ensure fresh_init) (simp add: init_state_def)
  from t have "ensure_awaited packaged_env all_ok ?s = (0, ?s1)
       \<and> get_promise ?s1 0 = Some (Fulfilled (runtime_dir packaged_env)) \<longrightarrow>
              ensure_awaited packaged_env all_ok ?s1 = (0, ?s1)
              \<and> count_list (new_events ?s (snd (ensure_awaited packaged_env all_ok ?s1))) FsUntar
                  = (if needsExtract packaged_env (runtime ?s) = Inr True then 1 else 0)"
    by blast
  with f example_first_install
  have a: "ensure_awaited packaged_env all_ok ?s1 = (0, ?s1)"
    and b: "count_list (new_events ?s (snd (ensure_awaited packaged_env all_ok ?s1))) FsUntar
                  = (if needsExtract packaged_env (runtime ?s) = Inr True then 1 else 0)"
    by (auto simp: prod_eq_iff)
  have q: "ensureProductionBackend packaged_env ?s
      = (0, snd (ensureProductionBackend packaged_env ?s))"
    using ensure_fresh(1)[OF fresh_init, of packaged_env removed_fs]
    by (simp add: prod_eq_iff init_state_def)
  from t have "ensureProductionBackend packaged_env ?s
         = (0, snd (ensureProductionBackend packaged_env ?s))
       \<and> get_promise ((extract_step packaged_env all_ok 0 ^^ 2)
            (snd (ensureProductionBackend packaged_env ?s))) 0 = Some (Pending AwaitTar) \<longrightarrow>
       ensureProductionBackend packaged_env ((extract_step packaged_env all_ok 0 ^^ 2)
            (snd (ensureProductionBackend packaged_env ?s)))
       = (0, (extract_step packaged_env all_ok 0 ^^ 2)
            (snd (ensureProductionBackend packaged_env ?s)))"
    by blast
  with q example_in_flight have c: "fst (ensureProductionBackend packaged_env
       ((extract_step packaged_env all_ok 0 ^^ 2)
          (snd (ensureProductionBackend packaged_env ?s)))) = 0"
    by simp
  from a b c show ?thesis
    by (simp add: new_events_def example_defs)
qed

subsection \<open>Starting the backend\<close>

lemmas start_defs = startBackend_overlapping_def startBackend_awaited_def startBackend_begin_def
  startBackend_resume_def resolveBackendCommand_begin_def resolveBackendCommand_finish_def
  resume_call_def settle_awaited_def dev_mode_def spawn_count_def is_spawn_def


text \<open>
  C8, evaluated. In the development profile the interpreter does not exist on disk;
  \<open>startBackend\<close> spawns all the same, and the failure arrives later as the child's
  \<open>error\<close> event. In the production profile the same situation is caught before
  \<open>spawn\<close>.
\<close>

theorem missing_dev_interpreter_spawns:
  "\<not> dev_python_exists dev_env
   \<and> map_option trace (startBackend_awaited dev_env all_ok False (init_state removed_fs))
       = Some [Spawn 0 (dev_command dev_env)]
   \<and> map_option (\<lambda>s. trace (on_child_error s))
         (startBackend_awaited dev_env all_ok False (init_state removed_fs))
       = Some [Spawn 0 (dev_command dev_env), ConsoleError SpawnFailed]
   \<and> map_option trace
         (startBackend_awaited packaged_env all_ok False
            (init_state ((installed ''1.1.0'')\<lparr>python_exists := False\<rparr>)))
       = Some [ConsoleError PythonNotFound]"
  by (simp add: start_defs example_defs emit_def on_child_error_def
      ensureProductionBackend_def extract_begin_def run_fulfilled get_promise_def)

subsection \<open>startBackend never throws\<close>

lemma fs_only_refl: "fs_only s s"
  by (simp add: fs_only_def new_events_def)

lemma fs_only_trans:
  assumes "fs_only s s1" "fs_only s1 s2"
  shows "fs_only s s2"
proof -
  from assms(1) obtain evs where 1: "trace s1 = trace s @ evs" "list_all is_fs_event evs"
    by (metis append_take_drop_id fs_only_def new_events_def)
  from assms(2) obtain evs' where 2: "trace s2 = trace s1 @ evs'" "list_all is_fs_event evs'"
    by (metis append_take_drop_id fs_only_def new_events_def)
  from 1 2 assms show ?thesis
    by (simp add: fs_only_def new_events_def)
qed

lemma fs_only_emit:
  "is_fs_event ev \<Longrightarrow> fs_only s s1 \<Longrightarrow> fs_only s (emit ev s1)"
  by (rule fs_only_trans[of s s1]) (simp_all add: fs_only_def new_events_def)

lemma fs_only_silent:
  "trace s1 = trace s \<Longrightarrow> backendProcess s1 = backendProcess s \<Longrightarrow> win s1 = win s \<Longrightarrow>
     fs_only s s1"
  by (simp add: fs_only_def new_events_def)

lemma fs_only_step: "fs_only s (extract_step e io p s)"
  by (simp add: extract_step_def fs_only_def new_events_def set_promise_def emit_def
      split: option.splits promise_state.splits extract_pc.splits rm_result.splits
        mkdir_result.splits tar_result.splits write_result.splits)

lemma fs_only_catch: "fs_only s (catch_handler p s)"
  by (simp add: catch_handler_def fs_only_def new_events_def
      split: option.splits promise_state.splits)

lemma fs_only_run: "fs_only s (extract_run e io p s)"
proof -
  note 1 = fs_only_step[of s e io p]
  note 2 = fs_only_trans[OF 1 fs_only_step[of _ e io p]]
  note 3 = fs_only_trans[OF 2 fs_only_step[of _ e io p]]
  note 4 = fs_only_trans[OF 3 fs_only_step[of _ e io p]]
  show ?thesis
    unfolding extract_run_def by (rule fs_only_trans[OF 4 fs_only_catch])
qed

lemma fs_only_ensure: "fs_only s (snd (ensureProductionBackend e s))"
  by (simp add: ensureProductionBackend_def extract_begin_def fs_only_def new_events_def emit_def
      split: option.splits sum.splits)

lemma fs_only_awaited: "fs_only s (snd (ensure_awaited e io s))"
  by (simp add: ensure_awaited_unfold) (rule fs_only_trans[OF fs_only_ensure fs_only_run])

text \<open>Every step brings a promise closer to settling.\<close>

lemma rank_le: "rank st \<le> 4"
  by (cases st rule: rank.cases) simp_all

lemma rank_zero: "rank st = 0 \<Longrightarrow> (\<exists>d. st = Fulfilled d) \<or> (\<exists>err. st = Rejected err)"
  by (cases st rule: rank.cases) simp_all

lemma step_rank:
  assumes "get_promise s p = Some st"
  shows "\<exists>st'. get_promise (extract_step e io p s) p = Some st' \<and> rank st' \<le> rank st - 1"
proof (cases st rule: rank.cases)
  case 1
  with assms get_promise_length[OF assms] show ?thesis
    by (cases "rm_result io") (simp_all add: step_rm get_promise_set)
next
  case 2
  with assms get_promise_length[OF assms] show ?thesis
    by (cases "mkdir_result io") (simp_all add: step_mkdir get_promise_set)
next
  case 3
  with assms get_promise_length[OF assms] show ?thesis
    by (cases "tar_result io") (simp_all add: step_tar get_promise_set)
next
  case 4
  with assms get_promise_length[OF assms] show ?thesis
    by (cases "write_result io") (simp_all add: step_write get_promise_set)
next
  case (5 d)
  with assms show ?thesis by (simp add: step_settled)
next
  case (6 err)
  with assms show ?thesis by (simp add: step_settled)
qed

lemma get_promise_catch: "get_promise (catch_handler p s) q = get_promise s q"
  by (simp add: catch_handler_def split: option.splits promise_state.splits)

lemma run_settles:
  assumes "get_promise s p = Some st"
  shows "\<exists>st'. get_promise (extract_run e io p s) p = Some st' \<and> rank st' = 0"
proof -
  from step_rank[OF assms, of e io] obtain st1 where
    1: "get_promise (extract_step e io p s) p = Some st1" "rank st1 \<le> rank st - 1" by blast
  from step_rank[OF 1(1), of e io] obtain st2 where
    2: "get_promise (extract_step e io p (extract_step e io p s)) p = Some st2"
      "rank st2 \<le> rank st1 - 1" by blast
  from step_rank[OF 2(1), of e io] obtain st3 where
    3: "get_promise (extract_step e io p (extract_step e io p (extract_step e io p s))) p
          = Some st3" "rank st3 \<le> rank st2 - 1" by blast
  from step_rank[OF 3(1), of e io] obtain st4 where
    4: "get_promise (extract_step e io p (extract_step e io p (extract_step e io p
          (extract_step e io p s)))) p = Some st4" "rank st4 \<le> rank st3 - 1" by blast
  from 1(2) 2(2) 3(2) 4(2) rank_le[of st] have "rank st4 = 0" by linarith
  with 4(1) show ?thesis by (simp add: extract_run_def get_promise_catch)
qed

lemma ensure_names_promise:
  assumes "promise_ok s"
  shows "\<exists>st. get_promise (snd (ensureProductionBackend e s)) (fst (ensureProductionBackend e s))
           = Some st"
proof (cases "backendExtractPromise s")
  case None
  from ensure_fresh(1,2)[OF None, of e] show ?thesis by simp
next
  case (Some p)
  with assms show ?thesis
    by (simp add: ensure_cached promise_ok_def get_promise_def)
qed

lemma awaited_settles:
  assumes "promise_ok s" and "ensure_awaited e io s = (p, s1)"
  shows "(\<exists>d. get_promise s1 p = Some (Fulfilled d)) \<or> (\<exists>err. get_promise s1 p = Some (Rejected err))"
proof -
  from ensure_names_promise[OF assms(1), of e] obtain st where
    "get_promise (snd (ensureProductionBackend e s)) (fst (ensureProductionBackend e s)) = Some st"
    by blast
  from run_settles[OF this, of e io] assms(2) obtain st' where
    "get_promise s1 p = Some st'" "rank st' = 0"
    by (auto simp: ensure_awaited_unfold)
  with rank_zero[of st'] show ?thesis by auto
qed

text \<open>What an awaited call of \<open>startBackend\<close> comes to.\<close>

lemma started_already:
  "backendProcess s = Some c \<Longrightarrow> startBackend_awaited e io sp s = Some s"
  by (simp add: startBackend_awaited_def startBackend_begin_def)

lemma awaited_dev:
  assumes "backendProcess s = None" "dev_mode e"
  shows "startBackend_awaited e io sp s =
     (if sp then Some (emit (ConsoleError SpawnThrew) s)
      else Some ((emit (Spawn (spawn_count (trace s)) (dev_command e)) s)
                   \<lparr>backendProcess := Some (spawn_count (trace s))\<rparr>))"
  using assms
  by (simp add: startBackend_awaited_def startBackend_begin_def resolveBackendCommand_begin_def
      startBackend_resume_def resolveBackendCommand_finish_def)

lemma awaited_packaged:
  assumes "backendProcess s = None" "\<not> dev_mode e"
  shows "startBackend_awaited e io sp s =
     startBackend_resume e sp (OnPromise (fst (ensure_awaited e io s))) (snd (ensure_awaited e io s))"
  using assms
  by (simp add: startBackend_awaited_def startBackend_begin_def resolveBackendCommand_begin_def
      ensure_awaited_unfold split: prod.splits)

lemma resume_rejected:
  "get_promise s p = Some (Rejected err) \<Longrightarrow>
     startBackend_resume e sp (OnPromise p) s = Some (emit (ConsoleError err) s)"
  by (simp add: startBackend_resume_def resolveBackendCommand_finish_def)

lemma resume_fulfilled:
  "get_promise s p = Some (Fulfilled d) \<Longrightarrow>
     startBackend_resume e sp (OnPromise p) s =
       (if python_exists (runtime s) then
          (if sp then Some (emit (ConsoleError SpawnThrew) s)
           else Some ((emit (Spawn (spawn_count (trace s)) (packaged_command e d)) s)
                        \<lparr>backendProcess := Some (spawn_count (trace s))\<rparr>))
        else Some (emit (ConsoleError PythonNotFound) s))"
  by (simp add: startBackend_resume_def resolveBackendCommand_finish_def)

lemma awaited_shape:
  assumes ok: "promise_ok s" and idle: "backendProcess s = None"
  obtains
    (failed) s1 err where "fs_only s s1"
      "startBackend_awaited e io sp s = Some (emit (ConsoleError err) s1)"
  | (spawned) s1 cmd where "fs_only s s1" "\<not> sp"
      "startBackend_awaited e io sp s =
         Some ((emit (Spawn (spawn_count (trace s1)) cmd) s1)
                 \<lparr>backendProcess := Some (spawn_count (trace s1))\<rparr>)"
proof (cases "dev_mode e")
  case True
  show ?thesis
  proof (cases sp)
    case True
    with awaited_dev[OF idle \<open>dev_mode e\<close>, of io sp] show ?thesis
      by (intro failed[of s SpawnThrew]) (simp_all add: fs_only_refl)
  next
    case False
    with awaited_dev[OF idle \<open>dev_mode e\<close>, of io sp] show ?thesis
      by (intro spawned[of s "dev_command e"]) (simp_all add: fs_only_refl)
  qed
next
  case False
  define p where "p = fst (ensure_awaited e io s)"
  define s1 where "s1 = snd (ensure_awaited e io s)"
  have call: "ensure_awaited e io s = (p, s1)" by (simp add: p_def s1_def)
  have fs: "fs_only s s1" unfolding s1_def by (rule fs_only_awaited)
  note run = awaited_packaged[OF idle False, of io sp, folded p_def s1_def]
  from awaited_settles[OF ok call] show ?thesis
  proof
    assume "\<exists>d. get_promise s1 p = Some (Fulfilled d)"
    then obtain d where d: "get_promise s1 p = Some (Fulfilled d)" by blast
    show ?thesis
    proof (cases "python_exists (runtime s1)")
      case False
      with run resume_fulfilled[OF d, of e sp] show ?thesis
        by (intro failed[OF fs, of PythonNotFound]) simp
    next
      case py: True
      show ?thesis
      proof (cases sp)
        case True
        with py run resume_fulfilled[OF d, of e sp] show ?thesis
          by (intro failed[OF fs, of SpawnThrew]) simp
      next
        case False
        with py run resume_fulfilled[OF d, of e sp] show ?thesis
          by (intro spawned[OF fs, of "packaged_command e d"]) simp_all
      qed
    qed
  next
    assume "\<exists>err. get_promise s1 p = Some (Rejected err)"
    then obtain err where "get_promise s1 p = Some (Rejected err)" by blast
    with run resume_rejected[OF this, of e sp] show ?thesis
      by (intro failed[OF fs, of err]) simp
  qed
qed


lemma fs_events_quiet:
  "list_all is_fs_event evs \<Longrightarrow>
     filter is_spawn evs = [] \<and> (\<forall>err. ConsoleError err \<notin> set evs)"
proof (induction evs)
  case Nil
  then show ?case by simp
next
  case (Cons ev evs)
  then show ?case by (cases ev) (simp_all add: is_spawn_def)
qed

lemma new_events_emit:
  assumes "fs_only s s1"
  shows "new_events s (emit ev s1) = new_events s s1 @ [ev]"
proof -
  from assms have "take (length (trace s)) (trace s1) = trace s" by (simp add: fs_only_def)
  then have "length (take (length (trace s)) (trace s1)) = length (trace s)"
    by (rule arg_cong)
  then have "length (trace s) \<le> length (trace s1)"
    by simp
  then show ?thesis by (simp add: new_events_def)
qed

lemma failed_start:
  assumes "fs_only s s1" "backendProcess s = None"
  shows "backendProcess (emit (ConsoleError err) s1) = None
    \<and> filter is_spawn (new_events s (emit (ConsoleError err) s1)) = []"
proof -
  from assms(1) have "list_all is_fs_event (new_events s s1)" by (simp add: fs_only_def)
  from fs_events_quiet[OF this] assms show ?thesis
    by (simp add: new_events_emit[OF assms(1)] is_spawn_def fs_only_def)
qed

lemma spawned_start:
  assumes "fs_only s s1"
  shows "ConsoleError err \<notin> set (new_events s ((emit (Spawn c cmd) s1)\<lparr>backendProcess := b\<rparr>))"
proof -
  from assms have "list_all is_fs_event (new_events s s1)" by (simp add: fs_only_def)
  from fs_events_quiet[OF this] have "ConsoleError err \<notin> set (new_events s s1)" by simp
  moreover have "new_events s ((emit (Spawn c cmd) s1)\<lparr>backendProcess := b\<rparr>)
      = new_events s (emit (Spawn c cmd) s1)"
    by (simp add: new_events_def)
  ultimately show ?thesis by (simp add: new_events_emit[OF assms])
qed

lemma start_returns:
  assumes ok: "promise_ok s"
  shows "\<exists>s'. startBackend_awaited e io sp s = Some s'
            \<and> ((\<exists>err. ConsoleError err \<in> set (new_events s s')) \<longrightarrow>
                 backendProcess s' = None \<and> filter is_spawn (new_events s s') = [])"
proof (cases "backendProcess s")
  case (Some c)
  then show ?thesis by (simp add: started_already new_events_def)
next
  case None
  show ?thesis
  proof (rule awaited_shape[OF ok None, of e io sp])
    fix s1 err
    assume "fs_only s s1" "startBackend_awaited e io sp s = Some (emit (ConsoleError err) s1)"
    with failed_start[OF this(1) None, of err] show ?thesis by simp
  next
    fix s1 cmd
    assume "fs_only s s1" "\<not> sp" "startBackend_awaited e io sp s =
         Some ((emit (Spawn (spawn_count (trace s1)) cmd) s1)
                 \<lparr>backendProcess := Some (spawn_count (trace s1))\<rparr>)"
    with spawned_start[OF this(1)] show ?thesis by simp
  qed
qed

lemma start_throwing_spawn:
  assumes ok: "promise_ok s" and idle: "backendProcess s = None" and sp
  shows "\<exists>s1 err. startBackend_awaited e io sp s = Some (emit (ConsoleError err) s1)
           \<and> backendProcess s1 = None"
proof (rule awaited_shape[OF ok idle, of e io sp])
  fix s1 err
  assume "fs_only s s1" "startBackend_awaited e io sp s = Some (emit (ConsoleError err) s1)"
  with idle show ?thesis by (auto simp: fs_only_def)
next
  fix s1 cmd
  assume "\<not> sp"
  with \<open>sp\<close> show ?thesis by simp
qed

text \<open>
  C10. An awaited call of \<open>startBackend\<close> always returns. Whenever it logged an error,
  \<open>backendProcess\<close> is null afterwards and nothing was spawned. A rejected extraction
  (missing archive, failed removal, mkdir, unpack or marker write) is logged as such, a
  missing interpreter in the runtime directory is logged, and a \<open>spawn\<close> that throws
  ends in a logged error with the handle null. The child's \<open>error\<close> and \<open>exit\<close> listeners
  reset the handle, the latter logging a non-zero exit code. The \<open>whenReady\<close> handler goes
  on to create the window, and after a call that left the handle null the guard of the
  next call passes.
\<close>

theorem startBackend_never_throws:
  assumes ok: "promise_ok s"
  shows "(\<exists>s'. startBackend_awaited e io sp s = Some s'
            \<and> ((\<exists>err. ConsoleError err \<in> set (new_events s s')) \<longrightarrow>
                 backendProcess s' = None \<and> filter is_spawn (new_events s s') = []))
       \<and> (\<forall>p s1 err.
            backendProcess s = None \<and> \<not> dev_mode e \<and> ensure_awaited e io s = (p, s1)
            \<and> get_promise s1 p = Some (Rejected err) \<longrightarrow>
              startBackend_awaited e io sp s = Some (emit (ConsoleError err) s1))
       \<and> (\<forall>p s1 d.
            backendProcess s = None \<and> \<not> dev_mode e \<and> ensure_awaited e io s = (p, s1)
            \<and> get_promise s1 p = Some (Fulfilled d) \<and> \<not> python_exists (runtime s1) \<longrightarrow>
              startBackend_awaited e io sp s = Some (emit (ConsoleError PythonNotFound) s1))
       \<and> (backendProcess s = None \<and> sp \<longrightarrow>
            (\<exists>s1 err. startBackend_awaited e io sp s = Some (emit (ConsoleError err) s1)
               \<and> backendProcess s1 = None))
       \<and> (\<forall>s' code. backendProcess (on_child_error s') = None
            \<and> last (trace (on_child_error s')) = ConsoleError SpawnFailed
            \<and> backendProcess (on_child_exit code s') = None)
       \<and> (\<forall>s' c. c \<noteq> 0 \<longrightarrow>
            last (trace (on_child_exit (Some c) s')) = ConsoleError (ExitedWithCode c))
       \<and> (\<exists>s''. whenReady e io sp s = Some s'' \<and> win s'' \<and> last (trace s'') = CreateWindow)
       \<and> (\<forall>s'. startBackend_awaited e io sp s = Some s' \<and> backendProcess s' = None \<longrightarrow>
            fst (startBackend_begin e s') \<noteq> None)"
proof -
  note c1 = start_returns[OF ok, of e io sp]
  have c2: "startBackend_awaited e io sp s = Some (emit (ConsoleError err) s1)"
    if "backendProcess s = None \<and> \<not> dev_mode e \<and> ensure_awaited e io s = (p, s1)
            \<and> get_promise s1 p = Some (Rejected err)" for p s1 err
    using that awaited_packaged[of s e io sp] resume_rejected[of s1 p err e sp] by simp
  have c3: "startBackend_awaited e io sp s = Some (emit (ConsoleError PythonNotFound) s1)"
    if "backendProcess s = None \<and> \<not> dev_mode e \<and> ensure_awaited e io s = (p, s1)
            \<and> get_promise s1 p = Some (Fulfilled d) \<and> \<not> python_exists (runtime s1)" for p s1 d
    using that awaited_packaged[of s e io sp] resume_fulfilled[of s1 p d e sp] by simp
  have c4: "\<exists>s1 err. startBackend_awaited e io sp s = Some (emit (ConsoleError err) s1)
               \<and> backendProcess s1 = None" if "backendProcess s = None \<and> sp"
    using that start_throwing_spawn[OF ok, of sp e io] by simp
  have c5: "backendProcess (on_child_error s') = None
            \<and> last (trace (on_child_error s')) = ConsoleError SpawnFailed
            \<and> backendProcess (on_child_exit code s') = None" for s' code
    by (simp add: on_child_error_def on_child_exit_def split: option.splits)
  have c6: "last (trace (on_child_exit (Some c) s')) = ConsoleError (ExitedWithCode c)"
    if "c \<noteq> 0" for s' c
    using that by (simp add: on_child_exit_def)
  have c7: "\<exists>s''. whenReady e io sp s = Some s'' \<and> win s'' \<and> last (trace s'') = CreateWindow"
    using c1 by (auto simp: whenReady_def createWindow_def)
  have c8: "fst (startBackend_begin e s') \<noteq> None"
    if "startBackend_awaited e io sp s = Some s' \<and> backendProcess s' = None" for s'
    using that by (simp add: startBackend_begin_def split: prod.splits)
  from c1 c2 c3 c4 c5 c6 c7 c8 show ?thesis by blast
qed

lemma example_missing_archive:
  "get_promise
     (snd (ensure_awaited (packaged_env\<lparr>archive_exists := False\<rparr>) all_ok (init_state removed_fs))) 0
     = Some (Rejected ArchiveMissing)"
  by (rule awaited_cases[OF fresh_init split_call, of "packaged_env\<lparr>archive_exists := False\<rparr>"
        all_ok removed_fs])
    (simp_all add: example_defs fst_ensure)

text \<open>
  The packaged application without its archive: the error is logged, the handle stays
  null and the window is created.
\<close>

theorem startBackend_never_throws_witness:
  "startBackend_awaited (packaged_env\<lparr>archive_exists := False\<rparr>) all_ok False
       (init_state removed_fs)
     = Some (emit (ConsoleError ArchiveMissing)
         (snd (ensure_awaited (packaged_env\<lparr>archive_exists := False\<rparr>) all_ok
            (init_state removed_fs))))
   \<and> (\<exists>s''. whenReady (packaged_env\<lparr>archive_exists := False\<rparr>) all_ok False
         (init_state removed_fs) = Some s'' \<and> win s'' \<and> last (trace s'') = CreateWindow)"
proof -
  let ?e = "packaged_env\<lparr>archive_exists := False\<rparr>"
  let ?s = "init_state removed_fs"
  have ok: "promise_ok ?s" by (simp add: promise_ok_def init_state_def)
  note t = startBackend_never_throws[OF ok, of ?e all_ok False]
  have f: "fst (ensure_awaited ?e all_ok ?s) = 0"
    by (simp add: fst_ensure fresh_init) (simp add: init_state_def)
  from t have "backendProcess ?s = None \<and> \<not> dev_mode ?e
      \<and> ensure_awaited ?e all_ok ?s = (0, snd (ensure_awaited ?e all_ok ?s))
      \<and> get_promise (snd (ensure_awaited ?e all_ok ?s)) 0 = Some (Rejected ArchiveMissing) \<longrightarrow>
         startBackend_awaited ?e all_ok False ?s
           = Some (emit (ConsoleError ArchiveMissing) (snd (ensure_awaited ?e all_ok ?s)))"
    by blast
  moreover have "backendProcess ?s = None" "\<not> dev_mode ?e"
    by (simp_all add: init_state_def dev_mode_def packaged_env_def)
  moreover have "ensure_awaited ?e all_ok ?s = (0, snd (ensure_awaited ?e all_ok ?s))"
    using f by (simp add: prod_eq_iff)
  ultimately have a: "startBackend_awaited ?e all_ok False ?s
           = Some (emit (ConsoleError ArchiveMissing) (snd (ensure_awaited ?e all_ok ?s)))"
    using example_missing_archive by blast
  from t have b: "\<exists>s''. whenReady ?e all_ok False ?s = Some s'' \<and> win s''
      \<and> last (trace s'') = CreateWindow"
    by blast
  from a b show ?thesis by blast
qed

subsection \<open>Shutdown\<close>

lemmas shutdown_defs = terminate_def process_exit_def on_SIGINT_def on_SIGTERM_def
  on_before_quit_def app_quit_def on_window_all_closed_def cleanup_def new_events_def emit_def

lemma terminate_kills:
  assumes "backendProcess s = Some c"
    and "t = WindowAllClosed \<longrightarrow> process_platform e \<noteq> Darwin"
  shows "Kill c \<in> set (takeWhile (\<lambda>ev. ev \<noteq> ProcessExit) (new_events s (terminate e k t s)))
       \<and> ProcessExit \<in> set (new_events s (terminate e k t s))
       \<and> count_list (new_events s (terminate e k t s)) (Kill c) = 1
       \<and> backendProcess (terminate e k t s) = None"
  using assms by (cases t; cases k) (simp_all add: shutdown_defs)

lemma fs_events_no_spawn: "list_all is_fs_event evs \<Longrightarrow> Spawn c cmd \<notin> set evs"
  by (induction evs) auto

lemma whenReady_tracks:
  assumes run: "whenReady e io sp (init_state fs) = Some s1"
    and spawned: "Spawn c cmd \<in> set (trace s1)"
  shows "backendProcess s1 = Some c"
proof -
  have ok: "promise_ok (init_state fs)" and idle: "backendProcess (init_state fs) = None"
    and empty: "trace (init_state fs) = []"
    by (simp_all add: promise_ok_def init_state_def)
  show ?thesis
  proof (rule awaited_shape[OF ok idle, of e io sp])
    fix s2 err
    assume fs: "fs_only (init_state fs) s2"
      and r: "startBackend_awaited e io sp (init_state fs) = Some (emit (ConsoleError err) s2)"
    from fs empty have "list_all is_fs_event (trace s2)"
      by (simp add: fs_only_def new_events_def)
    from fs_events_no_spawn[OF this] run r spawned show ?thesis
      by (auto simp: whenReady_def createWindow_def)
  next
    fix s2 cmd'
    assume fs: "fs_only (init_state fs) s2"
      and r: "startBackend_awaited e io sp (init_state fs) =
         Some ((emit (Spawn (spawn_count (trace s2)) cmd') s2)
                 \<lparr>backendProcess := Some (spawn_count (trace s2))\<rparr>)"
    from fs empty have "list_all is_fs_event (trace s2)"
      by (simp add: fs_only_def new_events_def)
    from fs_events_no_spawn[OF this] run r spawned show ?thesis
      by (auto simp: whenReady_def createWindow_def)
  qed
qed

text \<open>
  C9. On every way out of the host (the \<open>exit\<close> listener, \<open>SIGINT\<close>, \<open>SIGTERM\<close>,
  \<open>window-all-closed\<close> on platforms other than macOS, \<open>before-quit\<close>): when
  \<open>backendProcess\<close> holds a child, \<open>kill\<close> is called on that child before the process
  ends, exactly once, and the handle is cleared. In the application's own run, from the
  initial state through \<open>whenReady\<close>, every child that was spawned is the one
  \<open>backendProcess\<close> holds, so it is killed before the process ends. On macOS
  \<open>window-all-closed\<close> leaves the host running.
\<close>

theorem shutdown_kills_child:
  assumes "t = WindowAllClosed \<longrightarrow> process_platform e \<noteq> Darwin"
  shows "(backendProcess s = Some c \<longrightarrow>
            Kill c \<in> set (takeWhile (\<lambda>ev. ev \<noteq> ProcessExit) (new_events s (terminate e k t s)))
            \<and> ProcessExit \<in> set (new_events s (terminate e k t s))
            \<and> count_list (new_events s (terminate e k t s)) (Kill c) = 1
            \<and> backendProcess (terminate e k t s) = None)
       \<and> (\<forall>s1 c cmd.
            whenReady e io sp (init_state fs) = Some s1 \<and> Spawn c cmd \<in> set (trace s1) \<longrightarrow>
              Kill c \<in> set (takeWhile (\<lambda>ev. ev \<noteq> ProcessExit)
                (new_events s1 (terminate e k t s1))))
       \<and> (process_platform e = Darwin \<longrightarrow> terminate e k WindowAllClosed s = s)"
proof -
  have a: "Kill c \<in> set (takeWhile (\<lambda>ev. ev \<noteq> ProcessExit) (new_events s (terminate e k t s)))
            \<and> ProcessExit \<in> set (new_events s (terminate e k t s))
            \<and> count_list (new_events s (terminate e k t s)) (Kill c) = 1
            \<and> backendProcess (terminate e k t s) = None" if "backendProcess s = Some c"
    using terminate_kills[OF that assms] .
  have b: "Kill c \<in> set (takeWhile (\<lambda>ev. ev \<noteq> ProcessExit)
                (new_events s1 (terminate e k t s1)))"
    if "whenReady e io sp (init_state fs) = Some s1 \<and> Spawn c cmd \<in> set (trace s1)"
    for s1 c cmd
  proof -
    from that whenReady_tracks[of e io sp fs s1 c cmd] have "backendProcess s1 = Some c" by simp
    from terminate_kills[OF this assms] show ?thesis by simp
  qed
  have d: "terminate e k WindowAllClosed s = s" if "process_platform e = Darwin"
    using that by (simp add: terminate_def on_window_all_closed_def)
  from a b d show ?thesis by blast
qed

text \<open>
  A launch in the development profile, then all windows are closed: the child spawned
  at launch is killed before the process ends.
\<close>

lemma example_launch:
  "whenReady dev_env all_ok False (init_state removed_fs)
     = Some \<lparr>backendProcess = Some 0, backendExtractPromise = None, promises = [],
        runtime = removed_fs, trace = [Spawn 0 (dev_command dev_env), CreateWindow], win = True\<rparr>"
  by (simp add: whenReady_def createWindow_def start_defs dev_env_def packaged_env_def
      init_state_def emit_def)

theorem shutdown_kills_child_witness:
  "new_events ((init_state removed_fs)\<lparr>backendProcess := Some 0\<rparr>)
       (terminate dev_env False WindowAllClosed ((init_state removed_fs)\<lparr>backendProcess := Some 0\<rparr>))
     = [Kill 0, AppQuit, ProcessExit]
   \<and> Kill 0 \<in> set (takeWhile (\<lambda>ev. ev \<noteq> ProcessExit)
       (new_events
          \<lparr>backendProcess = Some 0, backendExtractPromise = None, promises = [],
             runtime = removed_fs, trace = [Spawn 0 (dev_command dev_env), CreateWindow],
             win = True\<rparr>
          (terminate dev_env False WindowAllClosed
             \<lparr>backendProcess = Some 0, backendExtractPromise = None, promises = [],
               runtime = removed_fs, trace = [Spawn 0 (dev_command dev_env), CreateWindow],
               win = True\<rparr>)))"
proof -
  have p: "WindowAllClosed = WindowAllClosed \<longrightarrow> process_platform dev_env \<noteq> Darwin"
    by (simp add: dev_env_def packaged_env_def)
  note t = shutdown_kills_child[OF p, of "(init_state removed_fs)\<lparr>backendProcess := Some 0\<rparr>" 0
      False all_ok False removed_fs]
  from t have a: "count_list (new_events ((init_state removed_fs)\<lparr>backendProcess := Some 0\<rparr>)
       (terminate dev_env False WindowAllClosed
          ((init_state removed_fs)\<lparr>backendProcess := Some 0\<rparr>))) (Kill 0) = 1"
    by simp
  have b: "new_events ((init_state removed_fs)\<lparr>backendProcess := Some 0\<rparr>)
       (terminate dev_env False WindowAllClosed ((init_state removed_fs)\<lparr>backendProcess := Some 0\<rparr>))
     = [Kill 0, AppQuit, ProcessExit]"
    using a by (simp add: shutdown_defs init_state_def dev_env_def packaged_env_def)
  from t example_launch have c: "Kill 0 \<in> set (takeWhile (\<lambda>ev. ev \<noteq> ProcessExit)
       (new_events
          \<lparr>backendProcess = Some 0, backendExtractPromise = None, promises = [],
             runtime = removed_fs, trace = [Spawn 0 (dev_command dev_env), CreateWindow],
             win = True\<rparr>
          (terminate dev_env False WindowAllClosed
             \<lparr>backendProcess = Some 0, backendExtractPromise = None, promises = [],
               runtime = removed_fs, trace = [Spawn 0 (dev_command dev_env), CreateWindow],
               win = True\<rparr>)))"
    by simp
  from b c show ?thesis by simp
qed

end
